theory Spec2Isabelle
  imports Main "HOL-Library.Sublist"
begin

section \<open>Strings\<close>

text \<open>
  A string is a list of bytes (the UTF-8 encoding of the source's string), so the Braille
  and emoji icons are written byte by byte. \<open>toUpperCase\<close> is modelled on the ASCII
  letters and leaves every other byte alone: chunk kinds, tool names and step
  identifiers are ASCII identifiers.
\<close>

definition isLower :: "char \<Rightarrow> bool" where
  "isLower c = (97 \<le> (of_char c :: nat) \<and> (of_char c :: nat) \<le> 122)"

definition isUpper :: "char \<Rightarrow> bool" where
  "isUpper c = (65 \<le> (of_char c :: nat) \<and> (of_char c :: nat) \<le> 90)"

definition toUpperCase :: "char \<Rightarrow> char" where
  "toUpperCase c = (if isLower c then char_of ((of_char c :: nat) - 32) else c)"

text \<open>\<open>w.charAt(0).toUpperCase() + w.slice(1)\<close>\<close>

fun capitalize :: "string \<Rightarrow> string" where
  "capitalize [] = []"
| "capitalize (c # cs) = toUpperCase c # cs"

text \<open>\<open>s.split(sep)\<close> for a separator that is one character of a class: the empty
  string splits into one empty word, and empty words are kept.\<close>

fun splitOn :: "(char \<Rightarrow> bool) \<Rightarrow> string \<Rightarrow> string list" where
  "splitOn p [] = [[]]"
| "splitOn p (c # cs) =
     (if p c then [] # splitOn p cs
      else (case splitOn p cs of [] \<Rightarrow> [[c]] | w # ws \<Rightarrow> (c # w) # ws))"

text \<open>\<open>words.join(sep)\<close>\<close>

fun join :: "string \<Rightarrow> string list \<Rightarrow> string" where
  "join sep [] = []"
| "join sep [w] = w"
| "join sep (w # ws) = w @ sep @ join sep ws"

text \<open>\<open>s.startsWith(p)\<close> is \<^const>\<open>prefix\<close>; \<open>s.includes(sub)\<close>:\<close>

fun includesStr :: "string \<Rightarrow> string \<Rightarrow> bool" where
  "includesStr [] sub = (sub = [])"
| "includesStr (c # cs) sub = (prefix sub (c # cs) \<or> includesStr cs sub)"

text \<open>Truthiness of an optional string: \<open>undefined\<close> and the empty string are falsy.\<close>

fun truthy :: "string option \<Rightarrow> bool" where
  "truthy None = False"
| "truthy (Some s) = (s \<noteq> [])"

text \<open>\<open>a || b\<close> on optional strings.\<close>

definition or_js :: "string option \<Rightarrow> string option \<Rightarrow> string option" where
  "or_js a b = (if truthy a then a else b)"

section \<open>constants.ts\<close>

definition SPINNER :: "string list" where
  "SPINNER =
     [[CHR 0xE2, CHR 0xA0, CHR 0x8B], [CHR 0xE2, CHR 0xA0, CHR 0x99],
      [CHR 0xE2, CHR 0xA0, CHR 0xB9], [CHR 0xE2, CHR 0xA0, CHR 0xB8],
      [CHR 0xE2, CHR 0xA0, CHR 0xBC], [CHR 0xE2, CHR 0xA0, CHR 0xB4],
      [CHR 0xE2, CHR 0xA0, CHR 0xA6], [CHR 0xE2, CHR 0xA0, CHR 0xA7],
      [CHR 0xE2, CHR 0xA0, CHR 0x87], [CHR 0xE2, CHR 0xA0, CHR 0x8F]]"

definition TOOL_ICONS :: "string list" where
  "TOOL_ICONS =
     [[CHR 0xF0, CHR 0x9F, CHR 0x94, CHR 0x84],
      [CHR 0xE2, CHR 0x9A, CHR 0x99, CHR 0xEF, CHR 0xB8, CHR 0x8F],
      [CHR 0xF0, CHR 0x9F, CHR 0x94, CHR 0xA7],
      [CHR 0xE2, CHR 0x9A, CHR 0xA1]]"

definition WORKFLOW_ICONS :: "string list" where
  "WORKFLOW_ICONS =
     [[CHR 0xF0, CHR 0x9F, CHR 0x93, CHR 0x8B],
      [CHR 0xE2, CHR 0x9A, CHR 0xA1],
      [CHR 0xF0, CHR 0x9F, CHR 0x94, CHR 0x84],
      [CHR 0xE2, CHR 0x9C, CHR 0xA8]]"

definition ANIMATION_INTERVAL :: nat where "ANIMATION_INTERVAL = 300"
definition TOOL_DISPLAY_DELAY :: nat where "TOOL_DISPLAY_DELAY = 300"
definition STEP_DISPLAY_DELAY :: nat where "STEP_DISPLAY_DELAY = 300"

section \<open>types.ts: the display state\<close>

record StreamState =
  textS :: string
  chunkType :: string
  toolName :: "string option"
  workflowName :: "string option"
  stepName :: "string option"
  agentName :: "string option"

section \<open>status.ts\<close>

definition formatChunkType :: "string \<Rightarrow> string" where
  "formatChunkType type = join '' '' (map capitalize (splitOn (\<lambda>c. c = CHR ''-'') type))"

text \<open>The frame counter starts at 0 and is only incremented, so it is a natural number.\<close>

definition getStatusText :: "StreamState \<Rightarrow> nat \<Rightarrow> string" where
  "getStatusText state frame =
     (let spinner = SPINNER ! (frame mod length SPINNER);
          toolIcon = TOOL_ICONS ! (frame mod length TOOL_ICONS);
          workflowIcon = WORKFLOW_ICONS ! (frame mod length WORKFLOW_ICONS);
          type = chunkType state;
          label = formatChunkType type
      in if prefix ''tool-'' type \<and> truthy (toolName state)
           then toolIcon @ '' '' @ label @ '': '' @ the (toolName state) @ ''...''
         else if prefix ''workflow-'' type \<and> truthy (stepName state)
           then workflowIcon @ '' '' @ label @ '': '' @ the (stepName state) @ ''...''
         else if includesStr type ''agent'' \<and> truthy (agentName state)
           then spinner @ '' '' @ label @ '': '' @ the (agentName state) @ ''...''
         else spinner @ '' '' @ label @ ''...'')"

text \<open>The three branches of the renderer, as conditions on the display state.\<close>

definition toolBranch :: "StreamState \<Rightarrow> bool" where
  "toolBranch s = (prefix ''tool-'' (chunkType s) \<and> truthy (toolName s))"

definition workflowBranch :: "StreamState \<Rightarrow> bool" where
  "workflowBranch s =
     (\<not> toolBranch s \<and> prefix ''workflow-'' (chunkType s) \<and> truthy (stepName s))"

definition spinnerBranch :: "StreamState \<Rightarrow> bool" where
  "spinnerBranch s = (\<not> toolBranch s \<and> \<not> workflowBranch s)"

text \<open>What follows the spinner in the last two templates.\<close>

definition spinnerTail :: "StreamState \<Rightarrow> string" where
  "spinnerTail s =
     (if includesStr (chunkType s) ''agent'' \<and> truthy (agentName s)
      then '' '' @ formatChunkType (chunkType s) @ '': '' @ the (agentName s) @ ''...''
      else '' '' @ formatChunkType (chunkType s) @ ''...'')"

section \<open>utils.ts\<close>

text \<open>\<open>id.replace(/([a-z])([A-Z])/g, '$1 $2')\<close>: a space between a lower-case letter and the
  upper-case letter after it; the scan goes on after the match.\<close>

fun camelSpaces :: "string \<Rightarrow> string" where
  "camelSpaces (a # b # cs) =
     (if isLower a \<and> isUpper b then a # CHR '' '' # b # camelSpaces cs
      else a # camelSpaces (b # cs))"
| "camelSpaces cs = cs"

definition formatName :: "string \<Rightarrow> string" where
  "formatName ident =
     join '' '' (map capitalize
       (splitOn (\<lambda>c. c = CHR ''-'' \<or> c = CHR ''_'') (camelSpaces ident)))"

section \<open>Failures\<close>

text \<open>A thrown value: an \<open>Error\<close> with its message, a \<open>TypeError\<close> of the runtime (also an
  instance of \<open>Error\<close>), or any other value, kept as \<open>String(value)\<close>.\<close>

datatype error = Error string | TypeError string | Thrown string

text \<open>\<open>error instanceof Error ? error.message : String(error)\<close>\<close>

fun errorMessage :: "error \<Rightarrow> string" where
  "errorMessage (Error m) = m"
| "errorMessage (TypeError m) = m"
| "errorMessage (Thrown v) = v"

text \<open>\<open>formatName(v)\<close> where \<open>v\<close> may be \<open>undefined\<close>: \<open>undefined.replace\<close> throws.\<close>

definition formatNameOpt :: "string option \<Rightarrow> error + string" where
  "formatNameOpt v =
     (case v of
        None \<Rightarrow> Inl (TypeError ''Cannot read properties of undefined (reading replace)'')
      | Some s \<Rightarrow> Inr (formatName s))"

section \<open>Chunks\<close>

text \<open>
  The fields of a chunk that the consumers read, with the types the source gives them
  in its annotations and casts. \<open>output\<close> of a tool-output chunk is cast to
  \<open>{ type?: string; payload?: { id?: string; stepId?: string } }\<close> after the test that it
  is a truthy object; a nested chunk's inner payload is cast to \<open>{ text?: string }\<close> or
  \<open>{ id?: string }\<close>. An absent field is \<open>None\<close>.
\<close>

record StepPayload =
  p_id :: "string option"
  p_stepId :: "string option"

record WorkflowEvent =
  o_type :: "string option"
  o_payload :: "StepPayload option"

text \<open>\<open>chunk.payload.output\<close>: a falsy value, a truthy value that is not an object, or an
  object.\<close>

datatype ToolOutput = OutputFalsy | OutputPrimitive | OutputObject WorkflowEvent

record InnerPayload =
  i_text :: "string option"
  i_id :: "string option"

record Payload =
  pl_text :: "string option"
  pl_toolName :: "string option"
  pl_output :: ToolOutput
  pl_name :: "string option"
  pl_workflowId :: "string option"
  pl_type :: "string option"
  pl_payload :: "InnerPayload option"

text \<open>\<open>payload = None\<close>: the chunk has no \<open>payload\<close> property (as chunks of kind
  \<open>object\<close>); a payload that is there is an object.\<close>

record Chunk =
  ctype :: string
  payload :: "Payload option"

definition noPayloadError :: error where
  "noPayloadError = TypeError ''Cannot read properties of undefined''"

section \<open>chunks.ts: the nested-event unwrapper\<close>

definition handleNestedChunkEvents :: "Chunk \<Rightarrow> StreamState \<Rightarrow> StreamState" where
  "handleNestedChunkEvents chunk state =
     (case payload chunk of
        None \<Rightarrow> state
      | Some innerChunk \<Rightarrow>
          if prefix ''agent-execution-event-'' (ctype chunk) then
            (if pl_type innerChunk = Some ''text-delta'' then
               (let text = (case pl_payload innerChunk of None \<Rightarrow> None | Some p \<Rightarrow> i_text p)
                in if truthy text
                   then state\<lparr>textS := textS state @ the text, chunkType := ''text-delta''\<rparr>
                   else state)
             else state)
          else if prefix ''workflow-execution-event-'' (ctype chunk) then
            (if pl_type innerChunk = Some ''workflow-step-start'' then
               (let ident = (case pl_payload innerChunk of None \<Rightarrow> None | Some p \<Rightarrow> i_id p)
                in state\<lparr>chunkType := ''workflow-step-start'',
                         stepName := Some (formatName (case ident of None \<Rightarrow> ''step'' | Some s \<Rightarrow> s))\<rparr>)
             else state)
          else state)"

section \<open>streaming.ts: the chat-surface consumer\<close>

datatype LogEntry =
    AttemptFailed nat error
  | GaveUp nat
  | ResponseSent
  | StreamingError error

text \<open>
  What the session does to the outside, in order. \<open>chat.update\<close> is called from two
  places, and the trace keeps them apart: \<open>RenderUpdate\<close> is the call in \<open>updateSlack\<close>
  (animation ticks and forced renders), \<open>FinalUpdate\<close> the call in \<open>retrySlackUpdate\<close>.
\<close>

datatype Call =
    PostMessage string string string
  | RenderUpdate string string string
  | FinalUpdate string "string option" string
  | Sleep nat
  | ConsoleLog LogEntry
  | ConsoleError LogEntry

record Options =
  channel :: string
  threadTs :: string
  agentName' :: string
  message :: string
  resourceId :: string
  threadId :: string

text \<open>The chunk sequence of \<open>stream.fullStream\<close>: finitely many chunks, then the end of the
  stream or a failure of the iteration.\<close>

type_synonym FullStream = "Chunk list \<times> error option"

text \<open>\<open>agent.stream(message, { resourceId, threadId })\<close>\<close>

type_synonym Agent = "string \<Rightarrow> string \<Rightarrow> string \<Rightarrow> error + FullStream"

text \<open>
  The collaborators of one session. \<open>postMessage n\<close> is the outcome of the \<open>n\<close>-th call of
  \<open>chat.postMessage\<close> (it rejects, or resolves with a response and its \<open>ts\<close>);
  \<open>finalUpdate n\<close> the outcome of the \<open>n\<close>-th \<open>chat.update\<close> of the final write;
  \<open>getAgent\<close> throws, returns nothing or returns the agent; \<open>ticks k\<close> is the number of
  callbacks of the animation timer that run while the consumer is suspended for the
  \<open>k\<close>-th time. The outcome of a \<open>chat.update\<close> issued by \<open>updateSlack\<close> is not here:
  its \<open>catch\<close> discards it.
\<close>

record Env =
  postMessage :: "nat \<Rightarrow> error + string option"
  finalUpdate :: "nat \<Rightarrow> error + unit"
  getAgent :: "string \<Rightarrow> error + Agent option"
  ticks :: "nat \<Rightarrow> nat"

text \<open>The variables of \<open>streamToSlack\<close> that its closures share, the trace, and the number
  of suspensions so far.\<close>

record World =
  state :: StreamState
  messageTs :: "string option"
  frame :: nat
  animationTimer :: bool
  isFinished :: bool
  calls :: "Call list"
  awaits :: nat

definition initialWorld :: World where
  "initialWorld =
     \<lparr>state = \<lparr>textS = [], chunkType = ''start'', toolName = None, workflowName = None,
               stepName = None, agentName = None\<rparr>,
      messageTs = None, frame = 0, animationTimer = False, isFinished = False,
      calls = [], awaits = 0\<rparr>"

definition stopAnimation :: "World \<Rightarrow> World" where
  "stopAnimation w =
     (let w1 = w\<lparr>isFinished := True\<rparr>
      in if animationTimer w1 then w1\<lparr>animationTimer := False\<rparr> else w1)"

text \<open>\<open>updateSlack(text?)\<close>: the test and the call of \<open>chat.update\<close> run without a
  suspension between them.\<close>

definition updateSlack :: "Options \<Rightarrow> string option \<Rightarrow> World \<Rightarrow> World" where
  "updateSlack opts text w =
     (if \<not> truthy (messageTs w) \<or> isFinished w then w
      else w\<lparr>calls := calls w @
             [RenderUpdate (channel opts) (the (messageTs w))
                (case text of None \<Rightarrow> getStatusText (state w) (frame w) | Some t \<Rightarrow> t)]\<rparr>)"

text \<open>The callback given to \<open>setInterval\<close>.\<close>

definition tick :: "Options \<Rightarrow> World \<Rightarrow> World" where
  "tick opts w =
     (if \<not> isFinished w then updateSlack opts None (w\<lparr>frame := frame w + 1\<rparr>) else w)"

text \<open>An \<open>await\<close> of the consumer: while the timer is set, the callbacks that are due run.\<close>

definition suspend :: "Env \<Rightarrow> Options \<Rightarrow> World \<Rightarrow> World" where
  "suspend env opts w =
     (if animationTimer w then ((tick opts) ^^ (ticks env (awaits w))) w else w)
       \<lparr>awaits := awaits w + 1\<rparr>"

definition sleep :: "Env \<Rightarrow> Options \<Rightarrow> nat \<Rightarrow> World \<Rightarrow> World" where
  "sleep env opts ms w = suspend env opts (w\<lparr>calls := calls w @ [Sleep ms]\<rparr>)"

text \<open>The loop of \<open>retrySlackUpdate\<close> from attempt number \<open>attempt\<close> on. \<open>update n\<close> is the
  outcome of the call of \<open>client.chat.update\<close> in attempt \<open>n\<close>.\<close>

function retryAttempts ::
  "(nat \<Rightarrow> error + unit) \<Rightarrow> string \<Rightarrow> string option \<Rightarrow> string \<Rightarrow> nat \<Rightarrow> nat
     \<Rightarrow> (error + unit) \<times> Call list" where
  "retryAttempts update chan ts text maxAttempts attempt =
     (if attempt < maxAttempts then
        (case update attempt of
           Inr _ \<Rightarrow> (Inr (), [FinalUpdate chan ts text])
         | Inl err \<Rightarrow>
             (let rest = retryAttempts update chan ts text maxAttempts (attempt + 1)
              in (fst rest,
                  [FinalUpdate chan ts text, ConsoleError (AttemptFailed (attempt + 1) err)]
                    @ (if attempt < maxAttempts - 1 then [Sleep 500] else [])
                    @ snd rest)))
      else (Inr (), [ConsoleError (GaveUp maxAttempts)]))"
  by pat_completeness auto
termination
  by (relation "measure (\<lambda>(update, chan, ts, text, maxAttempts, attempt). maxAttempts - attempt)")
     auto

declare retryAttempts.simps [simp del]

definition retrySlackUpdate ::
  "(nat \<Rightarrow> error + unit) \<Rightarrow> string \<Rightarrow> string option \<Rightarrow> string \<Rightarrow> nat
     \<Rightarrow> (error + unit) \<times> Call list" where
  "retrySlackUpdate update chan ts text maxAttempts =
     retryAttempts update chan ts text maxAttempts 0"

text \<open>\<open>sendFinalMessage(text)\<close>: \<open>maxAttempts\<close> takes its default, 3. It runs after
  \<open>stopAnimation\<close>, when the timer is cleared.\<close>

definition sendFinalMessage :: "Env \<Rightarrow> Options \<Rightarrow> string \<Rightarrow> World \<Rightarrow> (error + unit) \<times> World" where
  "sendFinalMessage env opts text w =
     (let r = retrySlackUpdate (finalUpdate env) (channel opts) (messageTs w) text 3
      in (fst r, w\<lparr>calls := calls w @ snd r\<rparr>))"

definition fallbackText :: string where
  "fallbackText = ''Sorry, I couldn't generate a response.''"

text \<open>The body of the \<open>for await\<close> loop, for one chunk.\<close>

definition processChunk :: "Env \<Rightarrow> Options \<Rightarrow> Chunk \<Rightarrow> World \<Rightarrow> (error + unit) \<times> World" where
  "processChunk env opts chunk w0 =
     (let w = w0\<lparr>state := (state w0)\<lparr>chunkType := ctype chunk\<rparr>\<rparr>
      in if ctype chunk = ''text-delta'' then
           (case payload chunk of
              None \<Rightarrow> (Inl noPayloadError, w)
            | Some p \<Rightarrow>
                if truthy (pl_text p)
                then (Inr (), w\<lparr>state := (state w)\<lparr>textS := textS (state w) @ the (pl_text p)\<rparr>\<rparr>)
                else (Inr (), w))
         else if ctype chunk = ''tool-call'' then
           (case payload chunk of
              None \<Rightarrow> (Inl noPayloadError, w)
            | Some p \<Rightarrow>
                (case formatNameOpt (pl_toolName p) of
                   Inl e \<Rightarrow> (Inl e, w)
                 | Inr n \<Rightarrow>
                     (let w1 = w\<lparr>state := (state w)\<lparr>toolName := Some n\<rparr>, frame := frame w + 1\<rparr>;
                          w2 = suspend env opts (updateSlack opts None w1);
                          w3 = sleep env opts TOOL_DISPLAY_DELAY w2
                      in (Inr (), w3))))
         else if ctype chunk = ''tool-output'' then
           (case payload chunk of
              None \<Rightarrow> (Inl noPayloadError, w)
            | Some p \<Rightarrow>
                (case pl_output p of
                   OutputObject out \<Rightarrow>
                     (let w1 = (if truthy (o_type out)
                                then w\<lparr>state := (state w)\<lparr>chunkType := the (o_type out)\<rparr>\<rparr>
                                else w)
                      in if o_type out = Some ''workflow-step-start'' then
                           (let ident = or_js
                                  (or_js (case o_payload out of None \<Rightarrow> None | Some q \<Rightarrow> p_id q)
                                         (case o_payload out of None \<Rightarrow> None | Some q \<Rightarrow> p_stepId q))
                                  (Some ''step'');
                                w2 = w1\<lparr>state := (state w1)\<lparr>stepName := Some (formatName (the ident))\<rparr>,
                                        frame := frame w1 + 1\<rparr>;
                                w3 = suspend env opts (updateSlack opts None w2);
                                w4 = sleep env opts STEP_DISPLAY_DELAY w3
                            in (Inr (), w4))
                         else (Inr (), w1))
                 | _ \<Rightarrow> (Inr (), w)))
         else if ctype chunk = ''workflow-execution-start'' then
           (case payload chunk of
              None \<Rightarrow> (Inl noPayloadError, w)
            | Some p \<Rightarrow>
                (case formatNameOpt (or_js (pl_name p) (pl_workflowId p)) of
                   Inl e \<Rightarrow> (Inl e, w)
                 | Inr n \<Rightarrow>
                     (Inr (), w\<lparr>state := (state w)\<lparr>workflowName := Some n,
                                                  stepName := Some ''Starting''\<rparr>\<rparr>)))
         else (Inr (), w))"

text \<open>The \<open>for await\<close> loop: the consumer is suspended for each chunk and for the end of the
  stream; a failure leaves the loop with the chunks after it unread.\<close>

fun consume ::
  "Env \<Rightarrow> Options \<Rightarrow> Chunk list \<Rightarrow> error option \<Rightarrow> World \<Rightarrow> (error + unit) \<times> World" where
  "consume env opts [] failure w =
     (case failure of
        None \<Rightarrow> (Inr (), suspend env opts w)
      | Some e \<Rightarrow> (Inl e, suspend env opts w))"
| "consume env opts (chunk # rest) failure w =
     (case processChunk env opts chunk (suspend env opts w) of
        (Inl e, w') \<Rightarrow> (Inl e, w')
      | (Inr _, w') \<Rightarrow> consume env opts rest failure w')"

text \<open>\<open>state.text || "Sorry, I couldn't generate a response."\<close>\<close>

definition finalText :: "StreamState \<Rightarrow> string" where
  "finalText st = (if textS st \<noteq> [] then textS st else fallbackText)"

definition agentNotFound :: "string \<Rightarrow> error" where
  "agentNotFound n = Error (''Agent '' @ [CHR 0x22] @ n @ [CHR 0x22] @ '' not found'')"

text \<open>The \<open>try\<close> block.\<close>

definition tryBody :: "Env \<Rightarrow> Options \<Rightarrow> World \<Rightarrow> (error + unit) \<times> World" where
  "tryBody env opts w0 =
     (let w1 = w0\<lparr>calls := calls w0 @
                  [PostMessage (channel opts) (threadTs opts) (getStatusText (state w0) 0)]\<rparr>
      in case postMessage env 0 of
           Inl e \<Rightarrow> (Inl e, w1)
         | Inr ts \<Rightarrow>
             (let w2 = w1\<lparr>messageTs := ts, animationTimer := True\<rparr>
              in case getAgent env (agentName' opts) of
                   Inl e \<Rightarrow> (Inl e, w2)
                 | Inr None \<Rightarrow> (Inl (agentNotFound (agentName' opts)), w2)
                 | Inr (Some agent) \<Rightarrow>
                     (let w3 = suspend env opts w2
                      in case agent (message opts) (resourceId opts) (threadId opts) of
                           Inl e \<Rightarrow> (Inl e, w3)
                         | Inr (chunks, failure) \<Rightarrow>
                             (case consume env opts chunks failure w3 of
                                (Inl e, w4) \<Rightarrow> (Inl e, w4)
                              | (Inr _, w4) \<Rightarrow>
                                  (case sendFinalMessage env opts (finalText (state w4))
                                          (stopAnimation w4) of
                                     (Inl e, w5) \<Rightarrow> (Inl e, w5)
                                   | (Inr _, w5) \<Rightarrow>
                                       (Inr (), w5\<lparr>calls := calls w5 @ [ConsoleLog ResponseSent]\<rparr>))))))"

definition errorText :: "error \<Rightarrow> string" where
  "errorText e = [CHR 0xE2, CHR 0x9D, CHR 0x8C] @ '' Error: '' @ errorMessage e"

text \<open>The \<open>catch\<close> block. The outcome of the error post is dropped by its \<open>.catch(() => {})\<close>;
  a failure of \<open>sendFinalMessage\<close> would leave the block in place of \<open>throw error\<close>.\<close>

definition catchBlock :: "Env \<Rightarrow> Options \<Rightarrow> error \<Rightarrow> World \<Rightarrow> (error + unit) \<times> World" where
  "catchBlock env opts err w =
     (let w1 = stopAnimation (w\<lparr>calls := calls w @ [ConsoleError (StreamingError err)]\<rparr>)
      in if truthy (messageTs w1) then
           (case sendFinalMessage env opts (errorText err) w1 of
              (Inl e, w2) \<Rightarrow> (Inl e, w2)
            | (Inr _, w2) \<Rightarrow> (Inl err, w2))
         else
           (let w2 = w1\<lparr>calls := calls w1 @
                        [PostMessage (channel opts) (threadTs opts) (errorText err)]\<rparr>
            in case postMessage env 1 of
                 Inl _ \<Rightarrow> (Inl err, w2)
               | Inr _ \<Rightarrow> (Inl err, w2)))"

definition streamToSlack :: "Env \<Rightarrow> Options \<Rightarrow> (error + unit) \<times> World" where
  "streamToSlack env opts =
     (case tryBody env opts initialWorld of
        (Inr _, w) \<Rightarrow> (Inr (), w)
      | (Inl e, w) \<Rightarrow> catchBlock env opts e w)"

text \<open>What may happen to a session from outside the consumer's own sequence: a callback
  of the timer (also one that was due when the timer was cleared), a call of
  \<open>updateSlack\<close>, a call of \<open>stopAnimation\<close>.\<close>

datatype Event = Tick | Render "string option" | Stop

fun applyEvent :: "Options \<Rightarrow> World \<Rightarrow> Event \<Rightarrow> World" where
  "applyEvent opts w Tick = tick opts w"
| "applyEvent opts w (Render text) = updateSlack opts text w"
| "applyEvent opts w Stop = stopAnimation w"

definition runEvents :: "Options \<Rightarrow> Event list \<Rightarrow> World \<Rightarrow> World" where
  "runEvents opts evs w = foldl (applyEvent opts) w evs"

section \<open>The terminal consumer\<close>

text \<open>Leading white space, as \<open>trim\<close> and \<open>parseInt\<close> skip it: the ASCII white space and
  the UTF-8 encodings of the other white-space and line-terminator code points.\<close>

definition whiteSpace :: "string list" where
  "whiteSpace =
     [[CHR 0x09], [CHR 0x0A], [CHR 0x0B], [CHR 0x0C], [CHR 0x0D], [CHR 0x20],
      [CHR 0xC2, CHR 0xA0], [CHR 0xE1, CHR 0x9A, CHR 0x80],
      [CHR 0xE2, CHR 0x80, CHR 0x80], [CHR 0xE2, CHR 0x80, CHR 0x81],
      [CHR 0xE2, CHR 0x80, CHR 0x82], [CHR 0xE2, CHR 0x80, CHR 0x83],
      [CHR 0xE2, CHR 0x80, CHR 0x84], [CHR 0xE2, CHR 0x80, CHR 0x85],
      [CHR 0xE2, CHR 0x80, CHR 0x86], [CHR 0xE2, CHR 0x80, CHR 0x87],
      [CHR 0xE2, CHR 0x80, CHR 0x88], [CHR 0xE2, CHR 0x80, CHR 0x89],
      [CHR 0xE2, CHR 0x80, CHR 0x8A], [CHR 0xE2, CHR 0x80, CHR 0xA8],
      [CHR 0xE2, CHR 0x80, CHR 0xA9], [CHR 0xE2, CHR 0x80, CHR 0xAF],
      [CHR 0xE2, CHR 0x81, CHR 0x9F], [CHR 0xE3, CHR 0x80, CHR 0x80],
      [CHR 0xEF, CHR 0xBB, CHR 0xBF]]"

function dropWhiteSpace :: "string \<Rightarrow> string" where
  "dropWhiteSpace s =
     (case find (\<lambda>p. p \<noteq> [] \<and> prefix p s) whiteSpace of
        None \<Rightarrow> s
      | Some p \<Rightarrow> dropWhiteSpace (drop (length p) s))"
  by pat_completeness auto
termination
proof (relation "measure length")
  show "wf (measure length)" by simp
next
  fix s :: string and p :: string
  assume "find (\<lambda>p. p \<noteq> [] \<and> prefix p s) whiteSpace = Some p"
  then have "p \<noteq> [] \<and> prefix p s"
    by (auto simp: find_Some_iff)
  then have "0 < length p" and "length p \<le> length s"
    by (auto simp: prefix_def)
  then have "length s - length p < length s"
    by arith
  then show "(drop (length p) s, s) \<in> measure length"
    by simp
qed

declare dropWhiteSpace.simps [simp del]

text \<open>\<open>!s.trim()\<close>\<close>

definition isBlank :: "string \<Rightarrow> bool" where
  "isBlank s = (dropWhiteSpace s = [])"

record Terminal =
  t_state :: StreamState
  stdout :: "string list"
  stderr :: "string list"

definition initialTerminal :: Terminal where
  "initialTerminal =
     \<lparr>t_state = \<lparr>textS = [], chunkType = ''start'', toolName = None, workflowName = None,
                 stepName = None, agentName = None\<rparr>,
      stdout = [], stderr = []\<rparr>"

text \<open>The body of the loop of \<open>streamToTerminal\<close>, for one chunk.\<close>

definition terminalChunk :: "Chunk \<Rightarrow> Terminal \<Rightarrow> (error + unit) \<times> Terminal" where
  "terminalChunk chunk t0 =
     (let t = t0\<lparr>t_state :=
                 handleNestedChunkEvents chunk ((t_state t0)\<lparr>chunkType := ctype chunk\<rparr>)\<rparr>
      in if ctype chunk = ''text-delta'' then
           (case payload chunk of
              None \<Rightarrow> (Inl noPayloadError, t)
            | Some p \<Rightarrow>
                if truthy (pl_text p)
                then (Inr (), t\<lparr>t_state := (t_state t)\<lparr>textS := textS (t_state t) @ the (pl_text p)\<rparr>,
                               stdout := stdout t @ [the (pl_text p)]\<rparr>)
                else (Inr (), t))
         else if ctype chunk = ''tool-call'' then
           (case payload chunk of
              None \<Rightarrow> (Inl noPayloadError, t)
            | Some p \<Rightarrow>
                (case formatNameOpt (pl_toolName p) of
                   Inl e \<Rightarrow> (Inl e, t)
                 | Inr n \<Rightarrow> (Inr (), t\<lparr>t_state := (t_state t)\<lparr>toolName := Some n\<rparr>\<rparr>)))
         else if ctype chunk = ''tool-output'' then
           (case payload chunk of
              None \<Rightarrow> (Inl noPayloadError, t)
            | Some p \<Rightarrow>
                (case pl_output p of
                   OutputObject out \<Rightarrow>
                     (let t1 = (if truthy (o_type out)
                                then t\<lparr>t_state := (t_state t)\<lparr>chunkType := the (o_type out)\<rparr>\<rparr>
                                else t)
                      in if o_type out = Some ''workflow-step-start'' then
                           (let ident = or_js
                                  (or_js (case o_payload out of None \<Rightarrow> None | Some q \<Rightarrow> p_id q)
                                         (case o_payload out of None \<Rightarrow> None | Some q \<Rightarrow> p_stepId q))
                                  (Some ''step'')
                            in (Inr (), t1\<lparr>t_state :=
                                   (t_state t1)\<lparr>stepName := Some (formatName (the ident))\<rparr>\<rparr>))
                         else (Inr (), t1))
                 | _ \<Rightarrow> (Inr (), t)))
         else if ctype chunk = ''workflow-execution-start'' then
           (case payload chunk of
              None \<Rightarrow> (Inl noPayloadError, t)
            | Some p \<Rightarrow>
                (case formatNameOpt (or_js (pl_name p) (pl_workflowId p)) of
                   Inl e \<Rightarrow> (Inl e, t)
                 | Inr n \<Rightarrow>
                     (Inr (), t\<lparr>t_state := (t_state t)\<lparr>workflowName := Some n,
                                                      stepName := Some ''Starting''\<rparr>\<rparr>)))
         else (Inr (), t))"

fun terminalConsume ::
  "Chunk list \<Rightarrow> error option \<Rightarrow> Terminal \<Rightarrow> (error + unit) \<times> Terminal" where
  "terminalConsume [] failure t =
     (case failure of None \<Rightarrow> (Inr (), t) | Some e \<Rightarrow> (Inl e, t))"
| "terminalConsume (chunk # rest) failure t =
     (case terminalChunk chunk t of
        (Inl e, t') \<Rightarrow> (Inl e, t')
      | (Inr _, t') \<Rightarrow> terminalConsume rest failure t')"

definition noResponseLine :: string where
  "noResponseLine =
     [CHR 0x0A, CHR 0xE2, CHR 0x9A, CHR 0xA0, CHR 0xEF, CHR 0xB8, CHR 0x8F]
       @ ''  No response generated.'' @ [CHR 0x0A]"

definition terminalTry ::
  "(string \<Rightarrow> error + Agent option) \<Rightarrow> Options \<Rightarrow> (error + unit) \<times> Terminal" where
  "terminalTry mastraGetAgent opts =
     (case mastraGetAgent (agentName' opts) of
        Inl e \<Rightarrow> (Inl e, initialTerminal)
      | Inr None \<Rightarrow> (Inl (agentNotFound (agentName' opts)), initialTerminal)
      | Inr (Some agent) \<Rightarrow>
          (case agent (message opts) (resourceId opts) (threadId opts) of
             Inl e \<Rightarrow> (Inl e, initialTerminal)
           | Inr (chunks, failure) \<Rightarrow>
               (case terminalConsume chunks failure initialTerminal of
                  (Inl e, t) \<Rightarrow> (Inl e, t)
                | (Inr _, t) \<Rightarrow>
                    (Inr (), t\<lparr>stdout := stdout t @
                       [if isBlank (textS (t_state t)) then noResponseLine else [CHR 0x0A]]\<rparr>))))"

text \<open>\<open>streamToTerminal\<close>; it reads \<open>agentName\<close>, \<open>message\<close>, \<open>resourceId\<close> and \<open>threadId\<close>
  of its options.\<close>

definition streamToTerminal ::
  "(string \<Rightarrow> error + Agent option) \<Rightarrow> Options \<Rightarrow> (error + unit) \<times> Terminal" where
  "streamToTerminal mastraGetAgent opts =
     (case terminalTry mastraGetAgent opts of
        (Inr _, t) \<Rightarrow> (Inr (), t)
      | (Inl e, t) \<Rightarrow> (Inl e, t\<lparr>stderr := stderr t @ [errorMessage e]\<rparr>))"

section \<open>verify.ts\<close>

text \<open>\<open>parseInt(s)\<close> without a radix: white space, a sign, \<open>0x\<close> or \<open>0X\<close> for base 16, then
  the longest run of digits; \<open>None\<close> is \<open>NaN\<close>. The value is kept exact (the source's
  number is the nearest double, which compares the same with a time in seconds).\<close>

definition digitValue :: "char \<Rightarrow> nat option" where
  "digitValue c =
     (let n = (of_char c :: nat)
      in if 48 \<le> n \<and> n \<le> 57 then Some (n - 48)
         else if 97 \<le> n \<and> n \<le> 102 then Some (n - 87)
         else if 65 \<le> n \<and> n \<le> 70 then Some (n - 55)
         else None)"

definition isDigitOf :: "nat \<Rightarrow> char \<Rightarrow> bool" where
  "isDigitOf radix c = (case digitValue c of None \<Rightarrow> False | Some d \<Rightarrow> d < radix)"

definition digitsValue :: "nat \<Rightarrow> string \<Rightarrow> nat" where
  "digitsValue radix ds = foldl (\<lambda>acc c. acc * radix + the (digitValue c)) 0 ds"

definition parseInt :: "string \<Rightarrow> int option" where
  "parseInt s =
     (let s1 = dropWhiteSpace s;
          negative = (s1 \<noteq> [] \<and> hd s1 = CHR ''-'');
          s2 = (if s1 \<noteq> [] \<and> (hd s1 = CHR ''-'' \<or> hd s1 = CHR ''+'') then tl s1 else s1);
          hex = (prefix ''0x'' s2 \<or> prefix ''0X'' s2);
          radix = (if hex then 16 else 10);
          s3 = (if hex then drop 2 s2 else s2);
          ds = takeWhile (isDigitOf radix) s3
      in if ds = [] then None
         else Some (if negative then - int (digitsValue radix ds) else int (digitsValue radix ds)))"

text \<open>
  \<open>verifySlackRequest\<close>. \<open>hmacSha256Hex secret msg\<close> stands for
  \<open>crypto.createHmac('sha256', secret).update(msg, 'utf8').digest('hex')\<close> and \<open>now\<close> for
  \<open>Date.now()\<close>, in milliseconds. \<open>Buffer.byteLength(s, 'utf8')\<close> is the length of the byte
  string, and \<open>crypto.timingSafeEqual\<close> on buffers of one length is their equality. A
  comparison with \<open>NaN\<close> is false.
\<close>

definition verifySlackRequest ::
  "(string \<Rightarrow> string \<Rightarrow> string) \<Rightarrow> int \<Rightarrow> string \<Rightarrow> string \<Rightarrow> string \<Rightarrow> string \<Rightarrow> bool" where
  "verifySlackRequest hmacSha256Hex now signingSecret requestSignature timestamp body =
     (let fiveMinutesAgo = now div 1000 - 60 * 5
      in if (case parseInt timestamp of None \<Rightarrow> False | Some n \<Rightarrow> n < fiveMinutesAgo) then False
         else
           (let sigBasestring = ''v0:'' @ timestamp @ '':'' @ body;
                mySignature = ''v0='' @ hmacSha256Hex signingSecret sigBasestring
            in if length requestSignature \<noteq> length mySignature then False
               else mySignature = requestSignature))"

text \<open>The two tests of \<open>verifySlackRequest\<close>, each on its own.\<close>

definition tooOld :: "int \<Rightarrow> string \<Rightarrow> bool" where
  "tooOld now timestamp =
     (case parseInt timestamp of None \<Rightarrow> False | Some n \<Rightarrow> n < now div 1000 - 300)"

definition signatureMatches ::
  "(string \<Rightarrow> string \<Rightarrow> string) \<Rightarrow> string \<Rightarrow> string \<Rightarrow> string \<Rightarrow> string \<Rightarrow> bool" where
  "signatureMatches hmacSha256Hex signingSecret requestSignature timestamp body =
     (let mySignature = ''v0='' @ hmacSha256Hex signingSecret (''v0:'' @ timestamp @ '':'' @ body)
      in length requestSignature = length mySignature \<and> mySignature = requestSignature)"

section \<open>Reading the trace, and sample sessions\<close>

fun finalWrites :: "Call list \<Rightarrow> string list" where
  "finalWrites [] = []"
| "finalWrites (FinalUpdate chan ts text # cs) = text # finalWrites cs"
| "finalWrites (c # cs) = finalWrites cs"

fun renders :: "Call list \<Rightarrow> string list" where
  "renders [] = []"
| "renders (RenderUpdate chan ts text # cs) = text # renders cs"
| "renders (c # cs) = renders cs"

definition attempts :: "Call list \<Rightarrow> nat" where
  "attempts cs = length (finalWrites cs)"

text \<open>A top-level text-delta chunk that carries a text, and the text it carries.\<close>

definition isTextDelta :: "Chunk \<Rightarrow> bool" where
  "isTextDelta c =
     (ctype c = ''text-delta'' \<and>
      (case payload c of None \<Rightarrow> False | Some p \<Rightarrow> pl_text p \<noteq> None))"

definition payloadText :: "Chunk \<Rightarrow> string" where
  "payloadText c =
     (case payload c of
        None \<Rightarrow> []
      | Some p \<Rightarrow> (case pl_text p of None \<Rightarrow> [] | Some t \<Rightarrow> t))"

text \<open>A tool-output chunk whose \<open>output\<close> is an object of type \<open>workflow-step-start\<close>, and the
  two identifiers of that object (\<open>output.payload?.id\<close>, \<open>output.payload?.stepId\<close>).\<close>

definition isStepStart :: "Chunk \<Rightarrow> bool" where
  "isStepStart c =
     (ctype c = ''tool-output'' \<and>
      (case payload c of
         None \<Rightarrow> False
       | Some p \<Rightarrow>
           (case pl_output p of
              OutputObject out \<Rightarrow> o_type out = Some ''workflow-step-start''
            | _ \<Rightarrow> False)))"

definition outputId :: "Chunk \<Rightarrow> string option" where
  "outputId c =
     (case payload c of
        None \<Rightarrow> None
      | Some p \<Rightarrow>
          (case pl_output p of
             OutputObject out \<Rightarrow> (case o_payload out of None \<Rightarrow> None | Some q \<Rightarrow> p_id q)
           | _ \<Rightarrow> None))"

definition outputStepId :: "Chunk \<Rightarrow> string option" where
  "outputStepId c =
     (case payload c of
        None \<Rightarrow> None
      | Some p \<Rightarrow>
          (case pl_output p of
             OutputObject out \<Rightarrow> (case o_payload out of None \<Rightarrow> None | Some q \<Rightarrow> p_stepId q)
           | _ \<Rightarrow> None))"

definition emptyPayload :: Payload where
  "emptyPayload =
     \<lparr>pl_text = None, pl_toolName = None, pl_output = OutputFalsy, pl_name = None,
      pl_workflowId = None, pl_type = None, pl_payload = None\<rparr>"

text \<open>\<open>{ type: 'text-delta', payload: { text: t } }\<close>\<close>

definition textDelta :: "string \<Rightarrow> Chunk" where
  "textDelta t = \<lparr>ctype = ''text-delta'', payload = Some (emptyPayload\<lparr>pl_text := Some t\<rparr>)\<rparr>"

text \<open>\<open>{ type: 'agent-execution-event-text-delta',
          payload: { type: 'text-delta', payload: { text: t } } }\<close>\<close>

definition nestedTextDelta :: "string \<Rightarrow> Chunk" where
  "nestedTextDelta t =
     \<lparr>ctype = ''agent-execution-event-text-delta'',
      payload = Some (emptyPayload\<lparr>pl_type := Some ''text-delta'',
                                   pl_payload := Some \<lparr>i_text = Some t, i_id = None\<rparr>\<rparr>)\<rparr>"

text \<open>\<open>{ type: 'tool-output',
          payload: { output: { type: 'workflow-step-start', payload: { id, stepId } } } }\<close>\<close>

definition stepStart :: "string option \<Rightarrow> string option \<Rightarrow> Chunk" where
  "stepStart ident stepIdent =
     \<lparr>ctype = ''tool-output'',
      payload = Some (emptyPayload\<lparr>pl_output :=
        OutputObject \<lparr>o_type = Some ''workflow-step-start'',
                      o_payload = Some \<lparr>p_id = ident, p_stepId = stepIdent\<rparr>\<rparr>\<rparr>)\<rparr>"

definition sampleOptions :: Options where
  "sampleOptions =
     \<lparr>channel = ''C42'', threadTs = ''1700000000.000100'', agentName' = ''lucie'',
      message = ''hello'', resourceId = ''slack-T1-U1'',
      threadId = ''slack-C42-1700000000.000100''\<rparr>"

text \<open>A session in which every call of the chat surface succeeds, the agent is registered
  and its stream yields \<open>chunks\<close> and then ends (or fails with \<open>failure\<close>), and one timer
  callback runs at each suspension.\<close>

definition sampleEnv :: "Chunk list \<Rightarrow> error option \<Rightarrow> Env" where
  "sampleEnv chunks failure =
     \<lparr>postMessage = (\<lambda>n. Inr (Some ''1700000001.000200'')),
      finalUpdate = (\<lambda>n. Inr ()),
      getAgent = (\<lambda>n. Inr (Some (\<lambda>m r t. Inr (chunks, failure)))),
      ticks = (\<lambda>k. 1)\<rparr>"

text \<open>A session in which no call of the chat surface succeeds.\<close>

definition failingEnv :: "Chunk list \<Rightarrow> error option \<Rightarrow> Env" where
  "failingEnv chunks failure =
     \<lparr>postMessage = (\<lambda>n. Inl (Error (if n = 0 then ''channel_not_found'' else ''ratelimited''))),
      finalUpdate = (\<lambda>n. Inl (Error ''ratelimited'')),
      getAgent = (\<lambda>n. Inr (Some (\<lambda>m r t. Inr (chunks, failure)))),
      ticks = (\<lambda>k. 1)\<rparr>"

text \<open>Display states of the three branches of the renderer.\<close>

definition startState :: StreamState where
  "startState = state initialWorld"

definition toolState :: StreamState where
  "toolState = startState\<lparr>chunkType := ''tool-call'', toolName := Some ''Reverse Text''\<rparr>"

definition stepState :: StreamState where
  "stepState = startState\<lparr>chunkType := ''workflow-step-start'', stepName := Some ''Analyze Text''\<rparr>"

section \<open>The status renderer cycles through its icons\<close>

lemma SPINNER_length: "length SPINNER = 10"
  by (simp add: SPINNER_def)

lemma TOOL_ICONS_length: "length TOOL_ICONS = 4"
  by (simp add: TOOL_ICONS_def)

lemma WORKFLOW_ICONS_length: "length WORKFLOW_ICONS = 4"
  by (simp add: WORKFLOW_ICONS_def)

lemma SPINNER_distinct: "distinct SPINNER"
  by (simp add: SPINNER_def)

lemma TOOL_ICONS_distinct: "distinct TOOL_ICONS"
  by (simp add: TOOL_ICONS_def)

lemma WORKFLOW_ICONS_distinct: "distinct WORKFLOW_ICONS"
  by (simp add: WORKFLOW_ICONS_def)

lemma icon_eq_iff:
  assumes "distinct icons" and "0 < length icons"
  shows "(icons ! (f mod length icons) @ rest = icons ! (g mod length icons) @ rest)
         = (f mod length icons = g mod length icons)"
  using assms by (simp add: nth_eq_iff_index_eq)

lemma getStatusText_tool:
  "toolBranch s \<Longrightarrow>
   getStatusText s f = TOOL_ICONS ! (f mod length TOOL_ICONS)
      @ ('' '' @ formatChunkType (chunkType s) @ '': '' @ the (toolName s) @ ''...'')"
  by (simp add: getStatusText_def toolBranch_def Let_def)

lemma getStatusText_workflow:
  "workflowBranch s \<Longrightarrow>
   getStatusText s f = WORKFLOW_ICONS ! (f mod length WORKFLOW_ICONS)
      @ ('' '' @ formatChunkType (chunkType s) @ '': '' @ the (stepName s) @ ''...'')"
  by (auto simp add: getStatusText_def toolBranch_def workflowBranch_def Let_def)

lemma getStatusText_spinner:
  "spinnerBranch s \<Longrightarrow>
   getStatusText s f = SPINNER ! (f mod length SPINNER) @ spinnerTail s"
  by (auto simp add: getStatusText_def toolBranch_def workflowBranch_def spinnerBranch_def
      Let_def spinnerTail_def)

text \<open>
  C7. \<open>getStatusText\<close> is a function of the display state and the frame alone. With the
  state fixed, the frame goes through the icons of the branch the state selects with
  period 10 where the spinner is shown (the default and the agent template) and period
  4 in the tool and in the workflow template: a frame and the frame 10 (or 4) later
  give the same string, and two frames give the same string exactly when they agree
  modulo 10 (or 4). Every state is in one of the three branches.
\<close>

theorem getStatusText_cycles:
  "(spinnerBranch s \<longrightarrow>
      getStatusText s (f + 10) = getStatusText s f \<and>
      ((getStatusText s f = getStatusText s g) = (f mod 10 = g mod 10)))
   \<and> (toolBranch s \<longrightarrow>
      getStatusText s (f + 4) = getStatusText s f \<and>
      ((getStatusText s f = getStatusText s g) = (f mod 4 = g mod 4)))
   \<and> (workflowBranch s \<longrightarrow>
      getStatusText s (f + 4) = getStatusText s f \<and>
      ((getStatusText s f = getStatusText s g) = (f mod 4 = g mod 4)))
   \<and> (spinnerBranch s \<or> toolBranch s \<or> workflowBranch s)"
proof -
  have sp: "getStatusText s (f + 10) = getStatusText s f \<and>
      ((getStatusText s f = getStatusText s g) = (f mod 10 = g mod 10))" if "spinnerBranch s"
    using that icon_eq_iff [OF SPINNER_distinct, of f "spinnerTail s" g]
    by (simp add: getStatusText_spinner SPINNER_length)
  have tl: "getStatusText s (f + 4) = getStatusText s f \<and>
      ((getStatusText s f = getStatusText s g) = (f mod 4 = g mod 4))" if "toolBranch s"
    using that icon_eq_iff [OF TOOL_ICONS_distinct, of f _ g]
    by (simp add: getStatusText_tool TOOL_ICONS_length)
  have wf: "getStatusText s (f + 4) = getStatusText s f \<and>
      ((getStatusText s f = getStatusText s g) = (f mod 4 = g mod 4))" if "workflowBranch s"
    using that icon_eq_iff [OF WORKFLOW_ICONS_distinct, of f _ g]
    by (simp add: getStatusText_workflow WORKFLOW_ICONS_length)
  have "spinnerBranch s \<or> toolBranch s \<or> workflowBranch s"
    by (auto simp: spinnerBranch_def)
  with sp tl wf show ?thesis by blast
qed

lemma startState_spinner: "spinnerBranch startState"
  by (simp add: spinnerBranch_def toolBranch_def workflowBranch_def startState_def
      initialWorld_def)

lemma toolState_tool: "toolBranch toolState"
  by (simp add: toolBranch_def toolState_def)

lemma stepState_workflow: "workflowBranch stepState"
  by (simp add: toolBranch_def workflowBranch_def stepState_def startState_def
      initialWorld_def)

theorem getStatusText_cycles_witness:
  "spinnerBranch startState \<and> getStatusText startState (3 + 10) = getStatusText startState 3
   \<and> toolBranch toolState \<and> getStatusText toolState (3 + 4) = getStatusText toolState 3
   \<and> workflowBranch stepState \<and> getStatusText stepState (3 + 4) = getStatusText stepState 3"
  using getStatusText_cycles [of startState 3 0] getStatusText_cycles [of toolState 3 0]
    getStatusText_cycles [of stepState 3 0]
    startState_spinner toolState_tool stepState_workflow
  by blast

section \<open>The retry helper of the final write\<close>

lemma retryAttempts_returns:
  "fst (retryAttempts upd chan ts msg maxAttempts attempt) = Inr ()"
proof (induction upd chan ts msg maxAttempts attempt rule: retryAttempts.induct)
  case (1 upd chan ts msg maxAttempts attempt)
  show ?case
  proof (cases "attempt < maxAttempts")
    case False
    then show ?thesis by (simp add: retryAttempts.simps)
  next
    case True
    show ?thesis
    proof (cases "upd attempt")
      case (Inl err)
      with True "1.IH" [of err] show ?thesis
        by (simp add: retryAttempts.simps [of upd chan ts msg maxAttempts attempt] Let_def)
    next
      case (Inr u)
      with True show ?thesis
        by (simp add: retryAttempts.simps [of upd chan ts msg maxAttempts attempt])
    qed
  qed
qed

lemma retryAttempts_finalWrites:
  "set (finalWrites (snd (retryAttempts upd chan ts msg maxAttempts attempt))) \<subseteq> {msg}
   \<and> length (finalWrites (snd (retryAttempts upd chan ts msg maxAttempts attempt)))
       \<le> maxAttempts - attempt
   \<and> (attempt < maxAttempts \<longrightarrow>
        finalWrites (snd (retryAttempts upd chan ts msg maxAttempts attempt)) \<noteq> [])
   \<and> renders (snd (retryAttempts upd chan ts msg maxAttempts attempt)) = []"
proof (induction upd chan ts msg maxAttempts attempt rule: retryAttempts.induct)
  case (1 upd chan ts msg maxAttempts attempt)
  show ?case
  proof (cases "attempt < maxAttempts")
    case False
    then show ?thesis by (simp add: retryAttempts.simps)
  next
    case True
    show ?thesis
    proof (cases "upd attempt")
      case (Inl err)
      with True "1.IH" [of err] show ?thesis
        by (auto simp add: retryAttempts.simps [of upd chan ts msg maxAttempts attempt] Let_def)
    next
      case (Inr u)
      with True show ?thesis
        by (simp add: retryAttempts.simps [of upd chan ts msg maxAttempts attempt])
    qed
  qed
qed

lemma retry3:
  "retrySlackUpdate u chan ts msg 3 =
     (case u 0 of
        Inr _ \<Rightarrow> (Inr (), [FinalUpdate chan ts msg])
      | Inl e0 \<Rightarrow>
          (case u 1 of
             Inr _ \<Rightarrow>
               (Inr (), [FinalUpdate chan ts msg, ConsoleError (AttemptFailed 1 e0), Sleep 500,
                         FinalUpdate chan ts msg])
           | Inl e1 \<Rightarrow>
               (case u 2 of
                  Inr _ \<Rightarrow>
                    (Inr (), [FinalUpdate chan ts msg, ConsoleError (AttemptFailed 1 e0), Sleep 500,
                              FinalUpdate chan ts msg, ConsoleError (AttemptFailed 2 e1), Sleep 500,
                              FinalUpdate chan ts msg])
                | Inl e2 \<Rightarrow>
                    (Inr (), [FinalUpdate chan ts msg, ConsoleError (AttemptFailed 1 e0), Sleep 500,
                              FinalUpdate chan ts msg, ConsoleError (AttemptFailed 2 e1), Sleep 500,
                              FinalUpdate chan ts msg, ConsoleError (AttemptFailed 3 e2),
                              ConsoleError (GaveUp 3)]))))"
  unfolding retrySlackUpdate_def
  by (subst retryAttempts.simps, subst retryAttempts.simps, subst retryAttempts.simps,
      subst retryAttempts.simps)
     (simp add: Let_def numeral_2_eq_2 split: sum.splits)

text \<open>
  C5. For every behaviour \<open>u\<close> of the update operation, \<open>retrySlackUpdate\<close> returns
  normally and calls the operation at most \<open>maxAttempts\<close> times. With the default of 3:
  it stops at the first attempt that succeeds; a failed attempt is logged and, unless
  it was the third, followed by a wait of 500 ms before the next attempt; an operation
  that fails twice and then succeeds is called exactly 3 times; after three failures the
  helper logs that it gives up and returns.
\<close>

theorem retrySlackUpdate_bounded:
  "fst (retrySlackUpdate u chan ts msg maxAttempts) = Inr ()
   \<and> attempts (snd (retrySlackUpdate u chan ts msg maxAttempts)) \<le> maxAttempts
   \<and> (u 0 = Inr () \<longrightarrow>
        snd (retrySlackUpdate u chan ts msg 3) = [FinalUpdate chan ts msg])
   \<and> (u 0 = Inl e0 \<and> u 1 = Inr () \<longrightarrow>
        snd (retrySlackUpdate u chan ts msg 3) =
          [FinalUpdate chan ts msg, ConsoleError (AttemptFailed 1 e0), Sleep 500,
           FinalUpdate chan ts msg])
   \<and> (u 0 = Inl e0 \<and> u 1 = Inl e1 \<and> u 2 = Inr () \<longrightarrow>
        snd (retrySlackUpdate u chan ts msg 3) =
          [FinalUpdate chan ts msg, ConsoleError (AttemptFailed 1 e0), Sleep 500,
           FinalUpdate chan ts msg, ConsoleError (AttemptFailed 2 e1), Sleep 500,
           FinalUpdate chan ts msg]
        \<and> attempts (snd (retrySlackUpdate u chan ts msg 3)) = 3)
   \<and> (u 0 = Inl e0 \<and> u 1 = Inl e1 \<and> u 2 = Inl e2 \<longrightarrow>
        snd (retrySlackUpdate u chan ts msg 3) =
          [FinalUpdate chan ts msg, ConsoleError (AttemptFailed 1 e0), Sleep 500,
           FinalUpdate chan ts msg, ConsoleError (AttemptFailed 2 e1), Sleep 500,
           FinalUpdate chan ts msg, ConsoleError (AttemptFailed 3 e2),
           ConsoleError (GaveUp 3)]
        \<and> attempts (snd (retrySlackUpdate u chan ts msg 3)) = 3)"
proof -
  have a: "fst (retrySlackUpdate u chan ts msg maxAttempts) = Inr ()"
    unfolding retrySlackUpdate_def by (rule retryAttempts_returns)
  have b: "attempts (snd (retrySlackUpdate u chan ts msg maxAttempts)) \<le> maxAttempts"
    using retryAttempts_finalWrites [of u chan ts msg maxAttempts 0]
    by (simp add: retrySlackUpdate_def attempts_def)
  show ?thesis
    using a b by (simp add: retry3 attempts_def)
qed

theorem retrySlackUpdate_bounded_witness:
  "(\<lambda>n::nat. if n < 2 then Inl (Error ''ratelimited'') else Inr ()) 0 = Inl (Error ''ratelimited'')
   \<and> (\<lambda>n::nat. if n < 2 then Inl (Error ''ratelimited'') else Inr ()) 1 = Inl (Error ''ratelimited'')
   \<and> (\<lambda>n::nat. if n < 2 then Inl (Error ''ratelimited'') else Inr ()) 2 = (Inr () :: error + unit)
   \<and> fst (retrySlackUpdate (\<lambda>n::nat. if n < 2 then Inl (Error ''ratelimited'') else Inr ())
        ''C42'' (Some ''1700000001.000200'') ''Hello!'' 3) = Inr ()
   \<and> attempts (snd (retrySlackUpdate (\<lambda>n::nat. if n < 2 then Inl (Error ''ratelimited'') else Inr ())
        ''C42'' (Some ''1700000001.000200'') ''Hello!'' 3)) = 3"
  using retrySlackUpdate_bounded
    [of "\<lambda>n::nat. if n < 2 then Inl (Error ''ratelimited'') else Inr ()" "''C42''"
        "Some ''1700000001.000200''" "''Hello!''" 3 "Error ''ratelimited''" "Error ''ratelimited''"]
  by (simp add: attempts_def)

section \<open>The freshness test of the request verification\<close>

lemma parseInt_soon: "parseInt ''soon'' = None"
  by (simp add: parseInt_def dropWhiteSpace.simps whiteSpace_def digitsValue_def isDigitOf_def
      digitValue_def Let_def)

lemma parseInt_future: "parseInt ''1800000000'' = Some 1800000000"
  by (simp add: parseInt_def dropWhiteSpace.simps whiteSpace_def digitsValue_def isDigitOf_def
      digitValue_def Let_def)

text \<open>
  C10. \<open>verifySlackRequest\<close> accepts a request exactly when the timestamp is not too old
  and the signature matches (same length, same bytes). A timestamp that \<open>parseInt\<close>
  turns into \<open>NaN\<close> is never too old, so for it the result is that of the signature test
  alone. A timestamp is too old exactly when it parses to a number strictly below
  \<open>floor(now / 1000) - 300\<close>; one that parses to the present second or a later one is
  never too old.
\<close>

theorem verifySlackRequest_freshness:
  "verifySlackRequest h now secret sig timestamp body =
     (\<not> tooOld now timestamp \<and> signatureMatches h secret sig timestamp body)
   \<and> (parseInt timestamp = None \<longrightarrow>
        \<not> tooOld now timestamp \<and>
        verifySlackRequest h now secret sig timestamp body =
          signatureMatches h secret sig timestamp body)
   \<and> (tooOld now timestamp =
        (\<exists>n. parseInt timestamp = Some n \<and> n < now div 1000 - 300))
   \<and> (\<forall>n. parseInt timestamp = Some n \<and> now div 1000 \<le> n \<longrightarrow> \<not> tooOld now timestamp)"
  by (auto simp add: verifySlackRequest_def tooOld_def signatureMatches_def Let_def
      split: option.splits)

theorem verifySlackRequest_freshness_witness:
  "parseInt ''soon'' = None
   \<and> verifySlackRequest (\<lambda>k m. ''5e'') 1700000000000 ''secret'' ''v0=5e'' ''soon'' ''{}''
   \<and> parseInt ''1800000000'' = Some 1800000000
   \<and> \<not> tooOld 1700000000000 ''1800000000''"
proof -
  have sig: "signatureMatches (\<lambda>k m. ''5e'') ''secret'' ''v0=5e'' ''soon'' ''{}''"
    by (simp add: signatureMatches_def)
  have le: "(1700000000000::int) div 1000 \<le> 1800000000"
    by simp
  from verifySlackRequest_freshness
    [of "\<lambda>k m. ''5e''" 1700000000000 "''secret''" "''v0=5e''" "''soon''" "''{}''"]
    parseInt_soon sig
  have one: "verifySlackRequest (\<lambda>k m. ''5e'') 1700000000000 ''secret'' ''v0=5e'' ''soon'' ''{}''"
    by blast
  from verifySlackRequest_freshness
    [of "\<lambda>k m. ''5e''" 1700000000000 "''secret''" "''v0=5e''" "''1800000000''" "''{}''"]
    parseInt_future le
  have two: "\<not> tooOld 1700000000000 ''1800000000''"
    by blast
  from one two parseInt_soon parseInt_future show ?thesis
    by blast
qed

section \<open>What the steps of a session leave unchanged\<close>

lemma finalWrites_append [simp]: "finalWrites (xs @ ys) = finalWrites xs @ finalWrites ys"
  by (induction xs rule: finalWrites.induct) simp_all

lemma renders_append [simp]: "renders (xs @ ys) = renders xs @ renders ys"
  by (induction xs rule: renders.induct) simp_all

lemma updateSlack_keeps [simp]:
  "state (updateSlack opts t w) = state w"
  "messageTs (updateSlack opts t w) = messageTs w"
  "isFinished (updateSlack opts t w) = isFinished w"
  "animationTimer (updateSlack opts t w) = animationTimer w"
  "frame (updateSlack opts t w) = frame w"
  "awaits (updateSlack opts t w) = awaits w"
  "finalWrites (calls (updateSlack opts t w)) = finalWrites (calls w)"
  by (simp_all add: updateSlack_def)

lemma tick_keeps [simp]:
  "state (tick opts w) = state w"
  "messageTs (tick opts w) = messageTs w"
  "isFinished (tick opts w) = isFinished w"
  "animationTimer (tick opts w) = animationTimer w"
  "awaits (tick opts w) = awaits w"
  "finalWrites (calls (tick opts w)) = finalWrites (calls w)"
  by (simp_all add: tick_def)

lemma ticks_keep [simp]:
  "state ((tick opts ^^ n) w) = state w"
  "messageTs ((tick opts ^^ n) w) = messageTs w"
  "isFinished ((tick opts ^^ n) w) = isFinished w"
  "animationTimer ((tick opts ^^ n) w) = animationTimer w"
  "awaits ((tick opts ^^ n) w) = awaits w"
  "finalWrites (calls ((tick opts ^^ n) w)) = finalWrites (calls w)"
  by (induction n) simp_all

lemma suspend_keeps [simp]:
  "state (suspend env opts w) = state w"
  "messageTs (suspend env opts w) = messageTs w"
  "isFinished (suspend env opts w) = isFinished w"
  "animationTimer (suspend env opts w) = animationTimer w"
  "finalWrites (calls (suspend env opts w)) = finalWrites (calls w)"
  by (simp_all add: suspend_def)

lemma sleep_keeps [simp]:
  "state (sleep env opts ms w) = state w"
  "messageTs (sleep env opts ms w) = messageTs w"
  "isFinished (sleep env opts ms w) = isFinished w"
  "animationTimer (sleep env opts ms w) = animationTimer w"
  "finalWrites (calls (sleep env opts ms w)) = finalWrites (calls w)"
  by (simp_all add: sleep_def)

lemma stopAnimation_keeps [simp]:
  "state (stopAnimation w) = state w"
  "messageTs (stopAnimation w) = messageTs w"
  "isFinished (stopAnimation w)"
  "\<not> animationTimer (stopAnimation w)"
  "calls (stopAnimation w) = calls w"
  by (simp_all add: stopAnimation_def Let_def)

lemma processChunk_control:
  "messageTs (snd (processChunk env opts chunk w)) = messageTs w
   \<and> isFinished (snd (processChunk env opts chunk w)) = isFinished w
   \<and> animationTimer (snd (processChunk env opts chunk w)) = animationTimer w
   \<and> finalWrites (calls (snd (processChunk env opts chunk w))) = finalWrites (calls w)"
  by (simp add: processChunk_def Let_def split: option.splits sum.splits ToolOutput.splits)

lemma processChunk_prefix:
  "prefix (textS (state w)) (textS (state (snd (processChunk env opts chunk w))))"
  by (simp add: processChunk_def Let_def split: option.splits sum.splits ToolOutput.splits)

lemma consume_control:
  "messageTs (snd (consume env opts chunks failure w)) = messageTs w
   \<and> isFinished (snd (consume env opts chunks failure w)) = isFinished w
   \<and> animationTimer (snd (consume env opts chunks failure w)) = animationTimer w
   \<and> finalWrites (calls (snd (consume env opts chunks failure w))) = finalWrites (calls w)"
proof (induction chunks arbitrary: w)
  case Nil
  show ?case by (simp split: option.splits)
next
  case (Cons chunk rest)
  obtain r w' where step: "processChunk env opts chunk (suspend env opts w) = (r, w')"
    by (cases "processChunk env opts chunk (suspend env opts w)")
  from processChunk_control [of env opts chunk "suspend env opts w"] step
  have keep: "messageTs w' = messageTs w \<and> isFinished w' = isFinished w
     \<and> animationTimer w' = animationTimer w \<and> finalWrites (calls w') = finalWrites (calls w)"
    by simp
  show ?case
  proof (cases r)
    case (Inl e)
    with step keep show ?thesis by simp
  next
    case (Inr u)
    with step keep Cons.IH [of w'] show ?thesis by simp
  qed
qed

lemma consume_prefix:
  "prefix (textS (state w)) (textS (state (snd (consume env opts chunks failure w))))"
proof (induction chunks arbitrary: w)
  case Nil
  show ?case by (simp split: option.splits)
next
  case (Cons chunk rest)
  obtain r w' where step: "processChunk env opts chunk (suspend env opts w) = (r, w')"
    by (cases "processChunk env opts chunk (suspend env opts w)")
  from processChunk_prefix [of "suspend env opts w" env opts chunk] step
  have one: "prefix (textS (state w)) (textS (state w'))"
    by simp
  show ?case
  proof (cases r)
    case (Inl e)
    with step one show ?thesis by simp
  next
    case (Inr u)
    from Cons.IH [of w'] one have "prefix (textS (state w)) (textS (state (snd (consume env opts rest failure w'))))"
      by (rule_tac prefix_order.trans)
    with step Inr show ?thesis by simp
  qed
qed

section \<open>The final write and the try block\<close>

lemma retry_lemmas:
  "fst (retrySlackUpdate u chan ts msg n) = Inr ()"
  "set (finalWrites (snd (retrySlackUpdate u chan ts msg n))) \<subseteq> {msg}"
  "0 < n \<Longrightarrow> finalWrites (snd (retrySlackUpdate u chan ts msg n)) \<noteq> []"
  "renders (snd (retrySlackUpdate u chan ts msg n)) = []"
  using retryAttempts_finalWrites [of u chan ts msg n 0]
  by (simp_all add: retrySlackUpdate_def retryAttempts_returns)

lemma sendFinalMessage_keeps [simp]:
  "fst (sendFinalMessage env opts msg w) = Inr ()"
  "state (snd (sendFinalMessage env opts msg w)) = state w"
  "messageTs (snd (sendFinalMessage env opts msg w)) = messageTs w"
  "isFinished (snd (sendFinalMessage env opts msg w)) = isFinished w"
  "animationTimer (snd (sendFinalMessage env opts msg w)) = animationTimer w"
  "calls (snd (sendFinalMessage env opts msg w)) =
     calls w @ snd (retrySlackUpdate (finalUpdate env) (channel opts) (messageTs w) msg 3)"
  by (simp_all add: sendFinalMessage_def Let_def retry_lemmas)

lemma sendFinalMessage_result:
  obtains w' where "sendFinalMessage env opts msg w = (Inr (), w')"
  using sendFinalMessage_keeps(1) [of env opts msg w]
  by (cases "sendFinalMessage env opts msg w") simp

text \<open>The try block, case by case.\<close>

lemma tryBody_success:
  assumes "tryBody env opts initialWorld = (Inr (), w)"
  shows "\<exists>w4::World. isFinished w \<and> \<not> animationTimer w \<and> state w = state w4
     \<and> messageTs w = messageTs w4 \<and> finalWrites (calls w4) = []
     \<and> calls w = calls w4 @ snd (retrySlackUpdate (finalUpdate env) (channel opts) (messageTs w4)
            (finalText (state w4)) 3) @ [ConsoleLog ResponseSent]"
proof -
  let ?w1 = "initialWorld\<lparr>calls := calls initialWorld @
     [PostMessage (channel opts) (threadTs opts) (getStatusText (state initialWorld) 0)]\<rparr>"
  from assms obtain ts where post: "postMessage env 0 = Inr ts"
    by (cases "postMessage env 0") (simp_all add: tryBody_def Let_def)
  let ?w2 = "?w1\<lparr>messageTs := ts, animationTimer := True\<rparr>"
  from assms post obtain agent where ag: "getAgent env (agentName' opts) = Inr (Some agent)"
    by (cases "getAgent env (agentName' opts)")
       (auto simp add: tryBody_def Let_def split: option.splits)
  let ?w3 = "suspend env opts ?w2"
  from assms post ag obtain chunks failure where
    st: "agent (message opts) (resourceId opts) (threadId opts) = Inr (chunks, failure)"
    by (cases "agent (message opts) (resourceId opts) (threadId opts)")
       (auto simp add: tryBody_def Let_def)
  obtain r w4 where cons: "consume env opts chunks failure ?w3 = (r, w4)"
    by (cases "consume env opts chunks failure ?w3")
  from assms post ag st cons have r: "r = Inr ()"
    by (cases r) (simp_all add: tryBody_def Let_def)
  from consume_control [of env opts chunks failure ?w3] cons
  have fw: "finalWrites (calls w4) = []"
    by (simp add: initialWorld_def)
  obtain w5 where fin:
    "sendFinalMessage env opts (finalText (state w4)) (stopAnimation w4) = (Inr (), w5)"
    by (rule sendFinalMessage_result)
  from assms post ag st cons r fin
  have w: "w = w5\<lparr>calls := calls w5 @ [ConsoleLog ResponseSent]\<rparr>"
    by (simp add: tryBody_def Let_def)
  from sendFinalMessage_keeps [of env opts "finalText (state w4)" "stopAnimation w4"] fin
  have w5: "state w5 = state w4" "messageTs w5 = messageTs w4" "isFinished w5"
    "\<not> animationTimer w5"
    "calls w5 = calls w4 @ snd (retrySlackUpdate (finalUpdate env) (channel opts) (messageTs w4)
        (finalText (state w4)) 3)"
    by simp_all
  have "isFinished w \<and> \<not> animationTimer w \<and> state w = state w4
     \<and> messageTs w = messageTs w4 \<and> finalWrites (calls w4) = []
     \<and> calls w = calls w4 @ snd (retrySlackUpdate (finalUpdate env) (channel opts) (messageTs w4)
            (finalText (state w4)) 3) @ [ConsoleLog ResponseSent]"
    by (simp add: w w5 fw)
  then show ?thesis ..
qed

lemma tryBody_failure_no_final:
  assumes "tryBody env opts initialWorld = (Inl e, w)"
  shows "finalWrites (calls w) = [] \<and> \<not> isFinished w"
proof (cases "postMessage env 0")
  case (Inl e0)
  with assms show ?thesis by (auto simp add: tryBody_def Let_def initialWorld_def)
next
  case (Inr ts)
  note post = this
  let ?w1 = "initialWorld\<lparr>calls := calls initialWorld @
     [PostMessage (channel opts) (threadTs opts) (getStatusText (state initialWorld) 0)]\<rparr>"
  let ?w2 = "?w1\<lparr>messageTs := ts, animationTimer := True\<rparr>"
  show ?thesis
  proof (cases "getAgent env (agentName' opts)")
    case (Inl e1)
    with assms post show ?thesis by (auto simp add: tryBody_def Let_def initialWorld_def)
  next
    case (Inr found)
    note ag = this
    show ?thesis
    proof (cases found)
      case None
      with assms post ag show ?thesis by (auto simp add: tryBody_def Let_def initialWorld_def)
    next
      case (Some agent)
      note some = this
      show ?thesis
      proof (cases "agent (message opts) (resourceId opts) (threadId opts)")
        case (Inl e2)
        with assms post ag some show ?thesis
          by (auto simp add: tryBody_def Let_def initialWorld_def)
      next
        case (Inr str)
        obtain chunks failure where str: "str = (chunks, failure)" by (cases str)
        obtain r w4 where cons: "consume env opts chunks failure (suspend env opts ?w2) = (r, w4)"
          by (cases "consume env opts chunks failure (suspend env opts ?w2)")
        from consume_control [of env opts chunks failure "suspend env opts ?w2"] cons
        have fw: "finalWrites (calls w4) = [] \<and> \<not> isFinished w4"
          by (simp add: initialWorld_def)
        show ?thesis
        proof (cases r)
          case (Inl e3)
          with assms post ag some Inr str cons fw show ?thesis
            by (auto simp add: tryBody_def Let_def)
        next
          case r: (Inr u)
          obtain w5 where
            "sendFinalMessage env opts (finalText (state w4)) (stopAnimation w4) = (Inr (), w5)"
            by (rule sendFinalMessage_result)
          with assms post ag some Inr str cons r show ?thesis
            by (simp add: tryBody_def Let_def)
        qed
      qed
    qed
  qed
qed

section \<open>Text increments are concatenated\<close>

lemma processChunk_textDelta:
  "isTextDelta c \<Longrightarrow>
     fst (processChunk env opts c w) = Inr ()
     \<and> textS (state (snd (processChunk env opts c w))) = textS (state w) @ payloadText c"
  by (auto simp: processChunk_def isTextDelta_def payloadText_def Let_def split: option.splits)

lemma terminalChunk_textDelta:
  "isTextDelta c \<Longrightarrow>
     fst (terminalChunk c t) = Inr ()
     \<and> textS (t_state (snd (terminalChunk c t))) = textS (t_state t) @ payloadText c"
  by (auto simp: terminalChunk_def handleNestedChunkEvents_def isTextDelta_def payloadText_def
      Let_def split: option.splits)

lemma consume_textDeltas:
  "list_all isTextDelta chunks \<Longrightarrow>
     fst (consume env opts chunks None w) = Inr ()
     \<and> textS (state (snd (consume env opts chunks None w)))
         = textS (state w) @ concat (map payloadText chunks)"
proof (induction chunks arbitrary: w)
  case Nil
  show ?case by simp
next
  case (Cons c rest)
  obtain r w' where step: "processChunk env opts c (suspend env opts w) = (r, w')"
    by (cases "processChunk env opts c (suspend env opts w)")
  from Cons.prems have c: "isTextDelta c" and rest: "list_all isTextDelta rest"
    by simp_all
  from processChunk_textDelta [OF c, of env opts "suspend env opts w"] step
  have r: "r = Inr ()" and t: "textS (state w') = textS (state w) @ payloadText c"
    by simp_all
  from Cons.IH [OF rest, of w'] step r t show ?case
    by simp
qed

lemma terminalConsume_textDeltas:
  "list_all isTextDelta chunks \<Longrightarrow>
     fst (terminalConsume chunks None t) = Inr ()
     \<and> textS (t_state (snd (terminalConsume chunks None t)))
         = textS (t_state t) @ concat (map payloadText chunks)"
proof (induction chunks arbitrary: t)
  case Nil
  show ?case by simp
next
  case (Cons c rest)
  obtain r t' where step: "terminalChunk c t = (r, t')"
    by (cases "terminalChunk c t")
  from Cons.prems have c: "isTextDelta c" and rest: "list_all isTextDelta rest"
    by simp_all
  from terminalChunk_textDelta [OF c, of t] step
  have r: "r = Inr ()" and tx: "textS (t_state t') = textS (t_state t) @ payloadText c"
    by simp_all
  from Cons.IH [OF rest, of t'] step r tx show ?case
    by simp
qed

lemma streamToSlack_of_stream:
  assumes post: "postMessage env 0 = Inr ts"
    and ag: "getAgent env (agentName' opts) = Inr (Some agent)"
    and st: "agent (message opts) (resourceId opts) (threadId opts) = Inr (chunks, failure)"
    and cons: "consume env opts chunks failure
       (suspend env opts (initialWorld\<lparr>calls := calls initialWorld @
          [PostMessage (channel opts) (threadTs opts) (getStatusText (state initialWorld) 0)],
          messageTs := ts, animationTimer := True\<rparr>)) = (Inr (), w4)"
  shows "fst (streamToSlack env opts) = Inr ()
     \<and> state (snd (streamToSlack env opts)) = state w4
     \<and> calls (snd (streamToSlack env opts)) =
         calls w4 @ snd (retrySlackUpdate (finalUpdate env) (channel opts) ts (finalText (state w4)) 3)
           @ [ConsoleLog ResponseSent]"
proof -
  obtain w5 where fin:
    "sendFinalMessage env opts (finalText (state w4)) (stopAnimation w4) = (Inr (), w5)"
    by (rule sendFinalMessage_result)
  from post ag st cons fin
  have tb: "tryBody env opts initialWorld = (Inr (), w5\<lparr>calls := calls w5 @ [ConsoleLog ResponseSent]\<rparr>)"
    by (simp add: tryBody_def Let_def)
  from consume_control [of env opts chunks failure
      "suspend env opts (initialWorld\<lparr>calls := calls initialWorld @
          [PostMessage (channel opts) (threadTs opts) (getStatusText (state initialWorld) 0)],
          messageTs := ts, animationTimer := True\<rparr>)"] cons
  have ts: "messageTs w4 = ts"
    by simp
  from sendFinalMessage_keeps [of env opts "finalText (state w4)" "stopAnimation w4"] fin ts
  have w5: "state w5 = state w4"
    "calls w5 = calls w4 @ snd (retrySlackUpdate (finalUpdate env) (channel opts) ts
        (finalText (state w4)) 3)"
    by simp_all
  from tb w5 show ?thesis
    by (simp add: streamToSlack_def)
qed

text \<open>
  C2. For a sequence of top-level text-delta chunks, the loop of the chat-surface consumer
  and the loop of the terminal consumer end normally, and the accumulated text after the
  loop is the text before it followed by the chunks' texts in arrival order. For a whole
  session of \<open>streamToSlack\<close> whose stream is such a sequence, the accumulated text at the
  end is the concatenation of the chunks' texts.
\<close>

theorem text_deltas_concatenate:
  "list_all isTextDelta chunks \<Longrightarrow>
     fst (consume env opts chunks None w) = Inr ()
     \<and> textS (state (snd (consume env opts chunks None w)))
         = textS (state w) @ concat (map payloadText chunks)
     \<and> fst (terminalConsume chunks None t) = Inr ()
     \<and> textS (t_state (snd (terminalConsume chunks None t)))
         = textS (t_state t) @ concat (map payloadText chunks)
     \<and> (postMessage env 0 = Inr ts \<and> getAgent env (agentName' opts) = Inr (Some agent)
          \<and> agent (message opts) (resourceId opts) (threadId opts) = Inr (chunks, None)
        \<longrightarrow> fst (streamToSlack env opts) = Inr ()
            \<and> textS (state (snd (streamToSlack env opts))) = concat (map payloadText chunks))"
proof -
  assume deltas: "list_all isTextDelta chunks"
  have whole: "fst (streamToSlack env opts) = Inr ()
            \<and> textS (state (snd (streamToSlack env opts))) = concat (map payloadText chunks)"
    if post: "postMessage env 0 = Inr ts"
      and ag: "getAgent env (agentName' opts) = Inr (Some agent)"
      and st: "agent (message opts) (resourceId opts) (threadId opts) = Inr (chunks, None)"
  proof -
    let ?w3 = "suspend env opts (initialWorld\<lparr>calls := calls initialWorld @
          [PostMessage (channel opts) (threadTs opts) (getStatusText (state initialWorld) 0)],
          messageTs := ts, animationTimer := True\<rparr>)"
    obtain r w4 where cons: "consume env opts chunks None ?w3 = (r, w4)"
      by (cases "consume env opts chunks None ?w3")
    from consume_textDeltas [OF deltas, of env opts ?w3] cons
    have r: "r = Inr ()" and tx: "textS (state w4) = concat (map payloadText chunks)"
      by (simp_all add: initialWorld_def)
    from streamToSlack_of_stream [OF post ag st, of w4] cons r tx show ?thesis
      by simp
  qed
  from consume_textDeltas [OF deltas, of env opts w] terminalConsume_textDeltas [OF deltas, of t]
    whole
  show ?thesis by blast
qed

lemma textDelta_is: "isTextDelta (textDelta s)"
  by (simp add: isTextDelta_def textDelta_def emptyPayload_def)

lemma textDelta_payloadText: "payloadText (textDelta s) = s"
  by (simp add: payloadText_def textDelta_def emptyPayload_def)

theorem text_deltas_concatenate_witness:
  "list_all isTextDelta [textDelta ''Hel'', textDelta ''lo!'']
   \<and> fst (streamToSlack (sampleEnv [textDelta ''Hel'', textDelta ''lo!''] None) sampleOptions) = Inr ()
   \<and> textS (state (snd (streamToSlack (sampleEnv [textDelta ''Hel'', textDelta ''lo!''] None)
        sampleOptions))) = ''Hello!''
   \<and> textS (t_state (snd (terminalConsume [textDelta ''Hel'', textDelta ''lo!''] None
        initialTerminal))) = ''Hello!''"
proof -
  have d: "list_all isTextDelta [textDelta ''Hel'', textDelta ''lo!'']"
    by (simp add: textDelta_is)
  from text_deltas_concatenate [OF d,
      of "sampleEnv [textDelta ''Hel'', textDelta ''lo!''] None" sampleOptions initialWorld
         initialTerminal "Some ''1700000001.000200''"
         "\<lambda>m r t. Inr ([textDelta ''Hel'', textDelta ''lo!''], None)"]
    d
  show ?thesis
    by (simp add: sampleEnv_def textDelta_payloadText initialTerminal_def)
qed

section \<open>Append-only text, cancellation, failures\<close>

lemma handleNested_prefix:
  "prefix (textS st) (textS (handleNestedChunkEvents chunk st))"
  by (simp add: handleNestedChunkEvents_def Let_def split: option.splits)

lemma terminalChunk_prefix:
  "prefix (textS (t_state t)) (textS (t_state (snd (terminalChunk chunk t))))"
proof -
  have "prefix (textS ((t_state t)\<lparr>chunkType := ctype chunk\<rparr>))
     (textS (handleNestedChunkEvents chunk ((t_state t)\<lparr>chunkType := ctype chunk\<rparr>)))"
    by (rule handleNested_prefix)
  then have a: "prefix (textS (t_state t))
     (textS (handleNestedChunkEvents chunk ((t_state t)\<lparr>chunkType := ctype chunk\<rparr>)))"
    by simp
  have b: "prefix (textS (handleNestedChunkEvents chunk ((t_state t)\<lparr>chunkType := ctype chunk\<rparr>)))
     (textS (t_state (snd (terminalChunk chunk t))))"
    by (simp add: terminalChunk_def Let_def split: option.splits sum.splits ToolOutput.splits)
  from a b show ?thesis
    by (rule prefix_order.trans)
qed

lemma terminalConsume_prefix:
  "prefix (textS (t_state t)) (textS (t_state (snd (terminalConsume chunks failure t))))"
proof (induction chunks arbitrary: t)
  case Nil
  show ?case by (simp split: option.splits)
next
  case (Cons chunk rest)
  obtain r t' where step: "terminalChunk chunk t = (r, t')"
    by (cases "terminalChunk chunk t")
  from terminalChunk_prefix [of t chunk] step
  have one: "prefix (textS (t_state t)) (textS (t_state t'))"
    by simp
  show ?case
  proof (cases r)
    case (Inl e)
    with step one show ?thesis by simp
  next
    case (Inr u)
    from one Cons.IH [of t']
    have "prefix (textS (t_state t)) (textS (t_state (snd (terminalConsume rest failure t'))))"
      by (rule prefix_order.trans)
    with step Inr show ?thesis by simp
  qed
qed

text \<open>
  C9. Accumulated text is append-only. The text before a step is a prefix of the text
  after it, for the unwrapper, for the loop body of the chat-surface consumer and of the
  terminal consumer (also when the body fails part way), and for their loops over any
  chunk sequence. Nothing else in a session writes the display state: a timer callback,
  a render, a suspension, \<open>stopAnimation\<close>, the final write and the \<open>catch\<close> block leave
  it as it is. The fallback of the final write is computed from the text and not stored
  in it.
\<close>

theorem accumulated_text_append_only:
  "prefix (textS st) (textS (handleNestedChunkEvents chunk st))
   \<and> prefix (textS (state w)) (textS (state (snd (processChunk env opts chunk w))))
   \<and> prefix (textS (state w)) (textS (state (snd (consume env opts chunks failure w))))
   \<and> prefix (textS (t_state t)) (textS (t_state (snd (terminalChunk chunk t))))
   \<and> prefix (textS (t_state t)) (textS (t_state (snd (terminalConsume chunks failure t))))
   \<and> state (tick opts w) = state w
   \<and> state (updateSlack opts shown w) = state w
   \<and> state (suspend env opts w) = state w
   \<and> state (stopAnimation w) = state w
   \<and> state (snd (sendFinalMessage env opts msg w)) = state w
   \<and> state (snd (catchBlock env opts e w)) = state w"
proof -
  have "state (snd (catchBlock env opts e w)) = state w"
  proof -
    obtain w' where
      "sendFinalMessage env opts (errorText e)
         (stopAnimation (w\<lparr>calls := calls w @ [ConsoleError (StreamingError e)]\<rparr>)) = (Inr (), w')"
      by (rule sendFinalMessage_result)
    with sendFinalMessage_keeps(2) [of env opts "errorText e"
        "stopAnimation (w\<lparr>calls := calls w @ [ConsoleError (StreamingError e)]\<rparr>)"]
    show ?thesis
      by (simp add: catchBlock_def Let_def split: sum.splits)
  qed
  then show ?thesis
    by (simp add: handleNested_prefix processChunk_prefix consume_prefix terminalChunk_prefix
        terminalConsume_prefix)
qed

theorem accumulated_text_append_only_witness:
  "prefix ''Hel'' (textS (state (snd (processChunk (sampleEnv [] None) sampleOptions
      (textDelta ''lo!'') (initialWorld\<lparr>state := startState\<lparr>textS := ''Hel''\<rparr>\<rparr>)))))
   \<and> textS (state (snd (processChunk (sampleEnv [] None) sampleOptions
      (textDelta ''lo!'') (initialWorld\<lparr>state := startState\<lparr>textS := ''Hel''\<rparr>\<rparr>)))) = ''Hello!''
   \<and> state (updateSlack sampleOptions None
        (initialWorld\<lparr>state := startState\<lparr>textS := ''Hel''\<rparr>\<rparr>))
       = startState\<lparr>textS := ''Hel''\<rparr>"
  using accumulated_text_append_only
      [where w = "initialWorld\<lparr>state := startState\<lparr>textS := ''Hel''\<rparr>\<rparr>"
         and env = "sampleEnv [] None" and opts = sampleOptions and chunk = "textDelta ''lo!''"
         and shown = None]
    processChunk_textDelta [OF textDelta_is, of "sampleEnv [] None" sampleOptions "''lo!''"
      "initialWorld\<lparr>state := startState\<lparr>textS := ''Hel''\<rparr>\<rparr>"]
  by (simp add: textDelta_payloadText)

lemma finished_fixpoint:
  assumes "isFinished w" and "\<not> animationTimer w"
  shows "applyEvent opts w ev = w"
proof (cases ev)
  case Tick
  with assms show ?thesis by (simp add: tick_def)
next
  case (Render shown)
  with assms show ?thesis by (simp add: updateSlack_def)
next
  case Stop
  with assms show ?thesis by (simp add: stopAnimation_def Let_def)
qed

lemma finished_runEvents:
  assumes "isFinished w" and "\<not> animationTimer w"
  shows "runEvents opts evs w = w"
  unfolding runEvents_def
  by (induction evs) (simp_all add: finished_fixpoint [OF assms])

lemma catchBlock_result:
  "fst (catchBlock env opts e w) = Inl e
   \<and> isFinished (snd (catchBlock env opts e w))
   \<and> \<not> animationTimer (snd (catchBlock env opts e w))
   \<and> calls (snd (catchBlock env opts e w)) =
       calls w @ [ConsoleError (StreamingError e)] @
       (if truthy (messageTs w)
        then snd (retrySlackUpdate (finalUpdate env) (channel opts) (messageTs w) (errorText e) 3)
        else [PostMessage (channel opts) (threadTs opts) (errorText e)])"
proof -
  let ?w1 = "stopAnimation (w\<lparr>calls := calls w @ [ConsoleError (StreamingError e)]\<rparr>)"
  obtain w' where fin: "sendFinalMessage env opts (errorText e) ?w1 = (Inr (), w')"
    by (rule sendFinalMessage_result)
  from sendFinalMessage_keeps [of env opts "errorText e" ?w1] fin
  have "isFinished w'" "\<not> animationTimer w'"
    "calls w' = calls w @ [ConsoleError (StreamingError e)] @
        snd (retrySlackUpdate (finalUpdate env) (channel opts) (messageTs w) (errorText e) 3)"
    by simp_all
  with fin show ?thesis
    by (simp add: catchBlock_def Let_def split: sum.splits)
qed

lemma streamToSlack_finished:
  "isFinished (snd (streamToSlack env opts)) \<and> \<not> animationTimer (snd (streamToSlack env opts))"
proof -
  obtain r w where tb: "tryBody env opts initialWorld = (r, w)"
    by (cases "tryBody env opts initialWorld")
  show ?thesis
  proof (cases r)
    case (Inl e)
    with tb catchBlock_result [of env opts e w] show ?thesis
      by (simp add: streamToSlack_def)
  next
    case (Inr u)
    with tb tryBody_success [of env opts w] show ?thesis
      by (auto simp add: streamToSlack_def)
  qed
qed

text \<open>
  C6. Once \<open>stopAnimation\<close> has run, the session is marked finished and the timer handle is
  cleared; a second \<open>stopAnimation\<close> changes nothing; a timer callback that still runs and
  any call of \<open>updateSlack\<close> change nothing, so no \<open>chat.update\<close> is issued by them,
  whatever sequence of callbacks, renders and cancellations follows. Every run of
  \<open>streamToSlack\<close>, normal or failed, ends in such a state.
\<close>

theorem no_render_after_stop:
  "isFinished (stopAnimation w) \<and> \<not> animationTimer (stopAnimation w)
   \<and> stopAnimation (stopAnimation w) = stopAnimation w
   \<and> tick opts (stopAnimation w) = stopAnimation w
   \<and> updateSlack opts shown (stopAnimation w) = stopAnimation w
   \<and> runEvents opts evs (stopAnimation w) = stopAnimation w
   \<and> isFinished (snd (streamToSlack env opts))
   \<and> \<not> animationTimer (snd (streamToSlack env opts))
   \<and> runEvents opts evs (snd (streamToSlack env opts)) = snd (streamToSlack env opts)"
proof -
  have s: "isFinished (stopAnimation w)" "\<not> animationTimer (stopAnimation w)"
    by simp_all
  from finished_fixpoint [OF s, of opts Stop] finished_fixpoint [OF s, of opts Tick]
    finished_fixpoint [OF s, of opts "Render shown"] finished_runEvents [OF s, of opts evs]
    streamToSlack_finished [of env opts]
    finished_runEvents [of "snd (streamToSlack env opts)" opts evs] s
  show ?thesis by simp
qed

theorem no_render_after_stop_witness:
  "calls (tick sampleOptions
      (initialWorld\<lparr>messageTs := Some ''1700000001.000200'', animationTimer := True\<rparr>))
     = [RenderUpdate ''C42'' ''1700000001.000200'' (getStatusText startState 1)]
   \<and> runEvents sampleOptions [Tick, Render None, Stop, Tick]
        (stopAnimation
           (initialWorld\<lparr>messageTs := Some ''1700000001.000200'', animationTimer := True\<rparr>))
     = stopAnimation
         (initialWorld\<lparr>messageTs := Some ''1700000001.000200'', animationTimer := True\<rparr>)
   \<and> calls (stopAnimation
         (initialWorld\<lparr>messageTs := Some ''1700000001.000200'', animationTimer := True\<rparr>)) = []"
  using no_render_after_stop
      [where w = "initialWorld\<lparr>messageTs := Some ''1700000001.000200'', animationTimer := True\<rparr>"
         and opts = sampleOptions and evs = "[Tick, Render None, Stop, Tick]"]
  by (simp add: tick_def updateSlack_def initialWorld_def sampleOptions_def startState_def)

text \<open>
  C8. \<open>streamToSlack\<close> returns normally exactly when its \<open>try\<close> block does, and a failure
  \<open>e\<close> of the \<open>try\<close> block is the failure it raises, whatever the chat surface answers to
  the report. The report: the failure is logged; with a placeholder handle, the error
  text goes to the final-write helper for that handle (which retries and never raises);
  without one, a single new post of the error text is attempted and its outcome is
  dropped. In particular, when the initial post fails with \<open>e\<close>, the session makes the
  initial post, the log entry and the error post, and raises \<open>e\<close>.
\<close>

theorem original_failure_reraised:
  "fst (streamToSlack env opts) = fst (tryBody env opts initialWorld)
   \<and> (fst (tryBody env opts initialWorld) = Inl e \<longrightarrow>
        fst (streamToSlack env opts) = Inl e
        \<and> calls (snd (streamToSlack env opts)) =
            calls (snd (tryBody env opts initialWorld)) @ [ConsoleError (StreamingError e)] @
            (if truthy (messageTs (snd (tryBody env opts initialWorld)))
             then snd (retrySlackUpdate (finalUpdate env) (channel opts)
                    (messageTs (snd (tryBody env opts initialWorld))) (errorText e) 3)
             else [PostMessage (channel opts) (threadTs opts) (errorText e)]))
   \<and> (postMessage env 0 = Inl e \<longrightarrow>
        fst (streamToSlack env opts) = Inl e
        \<and> calls (snd (streamToSlack env opts)) =
            [PostMessage (channel opts) (threadTs opts) (getStatusText startState 0),
             ConsoleError (StreamingError e),
             PostMessage (channel opts) (threadTs opts) (errorText e)])"
proof -
  obtain r w where tb: "tryBody env opts initialWorld = (r, w)"
    by (cases "tryBody env opts initialWorld")
  have a: "fst (streamToSlack env opts) = fst (tryBody env opts initialWorld)
   \<and> (fst (tryBody env opts initialWorld) = Inl e \<longrightarrow>
        fst (streamToSlack env opts) = Inl e
        \<and> calls (snd (streamToSlack env opts)) =
            calls (snd (tryBody env opts initialWorld)) @ [ConsoleError (StreamingError e)] @
            (if truthy (messageTs (snd (tryBody env opts initialWorld)))
             then snd (retrySlackUpdate (finalUpdate env) (channel opts)
                    (messageTs (snd (tryBody env opts initialWorld))) (errorText e) 3)
             else [PostMessage (channel opts) (threadTs opts) (errorText e)]))"
  proof (cases r)
    case (Inl e')
    with tb catchBlock_result [of env opts e' w] show ?thesis
      by (auto simp add: streamToSlack_def)
  next
    case (Inr u)
    with tb show ?thesis
      by (simp add: streamToSlack_def)
  qed
  have b: "fst (streamToSlack env opts) = Inl e
        \<and> calls (snd (streamToSlack env opts)) =
            [PostMessage (channel opts) (threadTs opts) (getStatusText startState 0),
             ConsoleError (StreamingError e),
             PostMessage (channel opts) (threadTs opts) (errorText e)]"
    if post: "postMessage env 0 = Inl e"
  proof -
    from post have "tryBody env opts initialWorld =
       (Inl e, initialWorld\<lparr>calls := calls initialWorld @
          [PostMessage (channel opts) (threadTs opts) (getStatusText (state initialWorld) 0)]\<rparr>)"
      by (simp add: tryBody_def Let_def)
    with a show ?thesis
      by (simp add: initialWorld_def startState_def)
  qed
  from a b show ?thesis by blast
qed

theorem original_failure_reraised_witness:
  "postMessage (failingEnv [] None) 0 = Inl (Error ''channel_not_found'')
   \<and> postMessage (failingEnv [] None) 1 = Inl (Error ''ratelimited'')
   \<and> fst (tryBody (failingEnv [] None) sampleOptions initialWorld) = Inl (Error ''channel_not_found'')
   \<and> fst (streamToSlack (failingEnv [] None) sampleOptions) = Inl (Error ''channel_not_found'')
   \<and> fst (tryBody ((sampleEnv [] (Some (Error ''boom'')))\<lparr>finalUpdate := \<lambda>n. Inl (Error ''ratelimited'')\<rparr>)
          sampleOptions initialWorld) = Inl (Error ''boom'')
   \<and> fst (streamToSlack ((sampleEnv [] (Some (Error ''boom'')))\<lparr>finalUpdate := \<lambda>n. Inl (Error ''ratelimited'')\<rparr>)
          sampleOptions) = Inl (Error ''boom'')
   \<and> finalWrites (calls (snd (streamToSlack
          ((sampleEnv [] (Some (Error ''boom'')))\<lparr>finalUpdate := \<lambda>n. Inl (Error ''ratelimited'')\<rparr>)
          sampleOptions)))
       = [errorText (Error ''boom''), errorText (Error ''boom''), errorText (Error ''boom'')]"
proof -
  let ?env = "(sampleEnv [] (Some (Error ''boom'')))\<lparr>finalUpdate := \<lambda>n. Inl (Error ''ratelimited'')\<rparr>"
  have p: "postMessage (failingEnv [] None) 0 = Inl (Error ''channel_not_found'')"
    "postMessage (failingEnv [] None) 1 = Inl (Error ''ratelimited'')"
    by (simp_all add: failingEnv_def)
  have t: "fst (tryBody (failingEnv [] None) sampleOptions initialWorld)
      = Inl (Error ''channel_not_found'')"
    by (simp add: tryBody_def Let_def p)
  obtain w where tb: "tryBody ?env sampleOptions initialWorld = (Inl (Error ''boom''), w)"
    and ts: "messageTs w = Some ''1700000001.000200''"
    by (simp add: tryBody_def Let_def sampleEnv_def)
  from tryBody_failure_no_final [OF tb] have fw: "finalWrites (calls w) = []"
    by simp
  from original_failure_reraised [of "failingEnv [] None" sampleOptions "Error ''channel_not_found''"]
    p t
  have one: "fst (streamToSlack (failingEnv [] None) sampleOptions) = Inl (Error ''channel_not_found'')"
    by simp
  from original_failure_reraised [of ?env sampleOptions "Error ''boom''"] tb ts fw
  have two: "fst (streamToSlack ?env sampleOptions) = Inl (Error ''boom'')"
    "finalWrites (calls (snd (streamToSlack ?env sampleOptions)))
       = [errorText (Error ''boom''), errorText (Error ''boom''), errorText (Error ''boom'')]"
    by (simp_all add: retry3 sampleEnv_def)
  from p t one two tb show ?thesis
    by simp
qed

section \<open>Nested agent chunks\<close>

lemma sample_session:
  assumes "consume (sampleEnv cs None) sampleOptions cs None
       (suspend (sampleEnv cs None) sampleOptions (initialWorld\<lparr>calls := calls initialWorld @
          [PostMessage (channel sampleOptions) (threadTs sampleOptions)
             (getStatusText (state initialWorld) 0)],
          messageTs := Some ''1700000001.000200'', animationTimer := True\<rparr>)) = (Inr (), w4)"
  shows "fst (streamToSlack (sampleEnv cs None) sampleOptions) = Inr ()
     \<and> state (snd (streamToSlack (sampleEnv cs None) sampleOptions)) = state w4
     \<and> finalWrites (calls (snd (streamToSlack (sampleEnv cs None) sampleOptions)))
          = [finalText (state w4)]"
proof -
  have post: "postMessage (sampleEnv cs None) 0 = Inr (Some ''1700000001.000200'')"
    and ag: "getAgent (sampleEnv cs None) (agentName' sampleOptions)
       = Inr (Some (\<lambda>m r t. Inr (cs, None)))"
    and fu: "finalUpdate (sampleEnv cs None) 0 = Inr ()"
    by (simp_all add: sampleEnv_def)
  have st: "(\<lambda>m r t. Inr (cs, None)) (message sampleOptions) (resourceId sampleOptions)
      (threadId sampleOptions) = (Inr (cs, None) :: error + FullStream)"
    by simp
  from consume_control [of "sampleEnv cs None" sampleOptions cs None
      "suspend (sampleEnv cs None) sampleOptions (initialWorld\<lparr>calls := calls initialWorld @
          [PostMessage (channel sampleOptions) (threadTs sampleOptions)
             (getStatusText (state initialWorld) 0)],
          messageTs := Some ''1700000001.000200'', animationTimer := True\<rparr>)"] assms
  have fw: "finalWrites (calls w4) = []"
    by (simp add: initialWorld_def)
  from streamToSlack_of_stream [OF post ag st assms] fw fu show ?thesis
    by (simp add: retry3)
qed

lemma processChunk_other:
  assumes "ctype c \<noteq> ''text-delta''" and "ctype c \<noteq> ''tool-call''"
    and "ctype c \<noteq> ''tool-output''" and "ctype c \<noteq> ''workflow-execution-start''"
  shows "processChunk env opts c w = (Inr (), w\<lparr>state := (state w)\<lparr>chunkType := ctype c\<rparr>\<rparr>)"
  using assms by (simp add: processChunk_def Let_def)

lemma nested_kind_is_other:
  assumes "prefix ''agent-execution-event-'' k"
  shows "k \<noteq> ''text-delta'' \<and> k \<noteq> ''tool-call'' \<and> k \<noteq> ''tool-output''
     \<and> k \<noteq> ''workflow-execution-start''"
  using assms by auto

text \<open>The chat-surface consumer leaves the text of a nested agent chunk out.\<close>

lemma processChunk_nested_agent:
  assumes "prefix ''agent-execution-event-'' (ctype c)"
  shows "fst (processChunk env opts c w) = Inr ()
     \<and> textS (state (snd (processChunk env opts c w))) = textS (state w)"
  using nested_kind_is_other [OF assms] by (simp add: processChunk_other)

text \<open>The unwrapper and the terminal consumer append it.\<close>

lemma handleNested_agent_text:
  assumes "prefix ''agent-execution-event-'' (ctype c)" and "payload c = Some p"
    and "pl_type p = Some ''text-delta''" and "pl_payload p = Some q" and "i_text q = Some s"
  shows "textS (handleNestedChunkEvents c st) = textS st @ s"
  using assms by (simp add: handleNestedChunkEvents_def Let_def)

lemma terminalChunk_agent_text:
  assumes "prefix ''agent-execution-event-'' (ctype c)" and "payload c = Some p"
    and "pl_type p = Some ''text-delta''" and "pl_payload p = Some q" and "i_text q = Some s"
  shows "fst (terminalChunk c t) = Inr ()
     \<and> textS (t_state (snd (terminalChunk c t))) = textS (t_state t) @ s"
  using assms nested_kind_is_other [OF assms(1)]
  by (simp add: terminalChunk_def handleNestedChunkEvents_def Let_def)

text \<open>
  C3, at the input \<open>{ type: 'agent-execution-event-text-delta', payload: { type:
  'text-delta', payload: { text: 'hello' } } }\<close>. The unwrapper appends \<open>hello\<close>, and so does
  the terminal consumer, which calls the unwrapper; a top-level text-delta with the same
  text gives \<open>hello\<close> in the chat-surface consumer too. The loop body of \<open>streamToSlack\<close>
  never calls the unwrapper: after the nested chunk its accumulated text is still empty,
  and a session whose stream is this one chunk writes the fallback text where the
  top-level form writes \<open>hello\<close>.
\<close>

theorem nested_text_delta_dropped:
  "textS (handleNestedChunkEvents (nestedTextDelta ''hello'') startState) = ''hello''
   \<and> textS (t_state (snd (terminalChunk (nestedTextDelta ''hello'') initialTerminal))) = ''hello''
   \<and> textS (state (snd (processChunk (sampleEnv [] None) sampleOptions (textDelta ''hello'')
        initialWorld))) = ''hello''
   \<and> textS (state (snd (processChunk (sampleEnv [] None) sampleOptions (nestedTextDelta ''hello'')
        initialWorld))) = []
   \<and> finalWrites (calls (snd (streamToSlack (sampleEnv [textDelta ''hello''] None) sampleOptions)))
        = [''hello'']
   \<and> finalWrites (calls (snd (streamToSlack (sampleEnv [nestedTextDelta ''hello''] None)
        sampleOptions))) = [fallbackText]"
proof -
  have k: "prefix ''agent-execution-event-'' (ctype (nestedTextDelta ''hello''))"
    by (simp add: nestedTextDelta_def)
  have a: "textS (handleNestedChunkEvents (nestedTextDelta ''hello'') startState) = ''hello''"
    by (simp add: handleNestedChunkEvents_def nestedTextDelta_def emptyPayload_def Let_def
        startState_def initialWorld_def)
  have b: "textS (t_state (snd (terminalChunk (nestedTextDelta ''hello'') initialTerminal)))
      = ''hello''"
    using terminalChunk_agent_text [OF k, of _ _ "''hello''" initialTerminal]
    by (simp add: nestedTextDelta_def emptyPayload_def initialTerminal_def)
  have c: "textS (state (snd (processChunk (sampleEnv [] None) sampleOptions (textDelta ''hello'')
        initialWorld))) = ''hello''"
    using processChunk_textDelta [OF textDelta_is, of "sampleEnv [] None" sampleOptions "''hello''"
        initialWorld]
    by (simp add: textDelta_payloadText initialWorld_def)
  have d: "textS (state (snd (processChunk (sampleEnv [] None) sampleOptions
        (nestedTextDelta ''hello'') initialWorld))) = []"
    using processChunk_nested_agent [OF k, of "sampleEnv [] None" sampleOptions initialWorld]
    by (simp add: initialWorld_def)
  let ?w3 = "\<lambda>cs. suspend (sampleEnv cs None) sampleOptions (initialWorld\<lparr>calls := calls initialWorld @
          [PostMessage (channel sampleOptions) (threadTs sampleOptions)
             (getStatusText (state initialWorld) 0)],
          messageTs := Some ''1700000001.000200'', animationTimer := True\<rparr>)"
  obtain r1 w1 where c1: "consume (sampleEnv [textDelta ''hello''] None) sampleOptions
       [textDelta ''hello''] None (?w3 [textDelta ''hello'']) = (r1, w1)"
    by (cases "consume (sampleEnv [textDelta ''hello''] None) sampleOptions
       [textDelta ''hello''] None (?w3 [textDelta ''hello''])")
  from consume_textDeltas [of "[textDelta ''hello'']" "sampleEnv [textDelta ''hello''] None"
      sampleOptions "?w3 [textDelta ''hello'']"] c1
  have "r1 = Inr ()" and "textS (state w1) = ''hello''"
    by (simp_all add: textDelta_is textDelta_payloadText initialWorld_def)
  with sample_session [of "[textDelta ''hello'']" w1] c1
  have e: "finalWrites (calls (snd (streamToSlack (sampleEnv [textDelta ''hello''] None)
      sampleOptions))) = [''hello'']"
    by (simp add: finalText_def)
  obtain r2 w2 where c2: "consume (sampleEnv [nestedTextDelta ''hello''] None) sampleOptions
       [nestedTextDelta ''hello''] None (?w3 [nestedTextDelta ''hello'']) = (r2, w2)"
    by (cases "consume (sampleEnv [nestedTextDelta ''hello''] None) sampleOptions
       [nestedTextDelta ''hello''] None (?w3 [nestedTextDelta ''hello''])")
  obtain r3 w3 where p3: "processChunk (sampleEnv [nestedTextDelta ''hello''] None) sampleOptions
       (nestedTextDelta ''hello'')
       (suspend (sampleEnv [nestedTextDelta ''hello''] None) sampleOptions
          (?w3 [nestedTextDelta ''hello''])) = (r3, w3)"
    by (cases "processChunk (sampleEnv [nestedTextDelta ''hello''] None) sampleOptions
       (nestedTextDelta ''hello'')
       (suspend (sampleEnv [nestedTextDelta ''hello''] None) sampleOptions
          (?w3 [nestedTextDelta ''hello'']))")
  from processChunk_nested_agent [OF k, of "sampleEnv [nestedTextDelta ''hello''] None"
      sampleOptions "suspend (sampleEnv [nestedTextDelta ''hello''] None) sampleOptions
          (?w3 [nestedTextDelta ''hello''])"] p3
  have "r3 = Inr ()" and "textS (state w3) = []"
    by (simp_all add: initialWorld_def)
  with c2 p3 have "r2 = Inr ()" and "textS (state w2) = []"
    by auto
  with sample_session [of "[nestedTextDelta ''hello'']" w2] c2
  have f: "finalWrites (calls (snd (streamToSlack (sampleEnv [nestedTextDelta ''hello''] None)
      sampleOptions))) = [fallbackText]"
    by (simp add: finalText_def)
  from a b c d e f show ?thesis by simp
qed

section \<open>The fallback text and the step name\<close>

lemma streamToSlack_normal_end:
  assumes "fst (streamToSlack env opts) = Inr ()"
  shows "tryBody env opts initialWorld = (Inr (), snd (streamToSlack env opts))"
proof -
  obtain r w where tb: "tryBody env opts initialWorld = (r, w)"
    by (cases "tryBody env opts initialWorld")
  show ?thesis
  proof (cases r)
    case (Inl e)
    with tb catchBlock_result [of env opts e w] assms show ?thesis
      by (simp add: streamToSlack_def)
  next
    case (Inr u)
    with tb show ?thesis
      by (simp add: streamToSlack_def)
  qed
qed

text \<open>
  C1 as stated fails. With an empty stream, the final write is
  \<open>Sorry, I couldn't generate a response.\<close>, which is not the string
  \<open>no response generated\<close>. With the one chunk \<open>text-delta " "\<close>, the accumulated text is a
  single space, which is only white space, and the final write is that space.
\<close>

theorem final_text_counterexample:
  "finalWrites (calls (snd (streamToSlack (sampleEnv [] None) sampleOptions)))
      = [''Sorry, I couldn't generate a response.'']
   \<and> ''Sorry, I couldn't generate a response.'' \<noteq> ''no response generated''
   \<and> textS (state (snd (streamToSlack (sampleEnv [textDelta '' ''] None) sampleOptions))) = '' ''
   \<and> isBlank '' ''
   \<and> finalWrites (calls (snd (streamToSlack (sampleEnv [textDelta '' ''] None) sampleOptions)))
      = ['' '']"
proof -
  let ?w3 = "\<lambda>cs. suspend (sampleEnv cs None) sampleOptions (initialWorld\<lparr>calls := calls initialWorld @
          [PostMessage (channel sampleOptions) (threadTs sampleOptions)
             (getStatusText (state initialWorld) 0)],
          messageTs := Some ''1700000001.000200'', animationTimer := True\<rparr>)"
  have "consume (sampleEnv [] None) sampleOptions [] None (?w3 [])
      = (Inr (), suspend (sampleEnv [] None) sampleOptions (?w3 []))"
    by simp
  from sample_session [OF this]
  have a: "finalWrites (calls (snd (streamToSlack (sampleEnv [] None) sampleOptions)))
      = [''Sorry, I couldn't generate a response.'']"
    by (simp add: finalText_def fallbackText_def initialWorld_def)
  obtain r1 w1 where c1: "consume (sampleEnv [textDelta '' ''] None) sampleOptions
       [textDelta '' ''] None (?w3 [textDelta '' '']) = (r1, w1)"
    by (cases "consume (sampleEnv [textDelta '' ''] None) sampleOptions
       [textDelta '' ''] None (?w3 [textDelta '' ''])")
  from consume_textDeltas [of "[textDelta '' '']" "sampleEnv [textDelta '' ''] None"
      sampleOptions "?w3 [textDelta '' '']"] c1
  have "r1 = Inr ()" and "textS (state w1) = '' ''"
    by (simp_all add: textDelta_is textDelta_payloadText initialWorld_def)
  with sample_session [of "[textDelta '' '']" w1] c1
  have b: "textS (state (snd (streamToSlack (sampleEnv [textDelta '' ''] None) sampleOptions))) = '' ''"
    "finalWrites (calls (snd (streamToSlack (sampleEnv [textDelta '' ''] None) sampleOptions)))
      = ['' '']"
    by (simp_all add: finalText_def)
  have c: "isBlank '' ''"
    by (simp add: isBlank_def dropWhiteSpace.simps whiteSpace_def)
  from a b c show ?thesis by simp
qed

text \<open>
  C1, amended. When a session of \<open>streamToSlack\<close> ends normally with empty accumulated
  text, the final write is attempted at least once and every attempt writes the fixed
  string \<open>Sorry, I couldn't generate a response.\<close>, never the empty string.
\<close>

theorem empty_text_final_write:
  "fst (streamToSlack env opts) = Inr () \<Longrightarrow>
   textS (state (snd (streamToSlack env opts))) = [] \<Longrightarrow>
     finalWrites (calls (snd (streamToSlack env opts))) \<noteq> []
     \<and> set (finalWrites (calls (snd (streamToSlack env opts)))) = {fallbackText}
     \<and> fallbackText = ''Sorry, I couldn't generate a response.''"
proof -
  assume ok: "fst (streamToSlack env opts) = Inr ()"
    and empty: "textS (state (snd (streamToSlack env opts))) = []"
  from tryBody_success [OF streamToSlack_normal_end [OF ok]]
  obtain w4 :: World where w4: "state (snd (streamToSlack env opts)) = state w4"
    "finalWrites (calls w4) = []"
    "calls (snd (streamToSlack env opts)) =
       calls w4 @ snd (retrySlackUpdate (finalUpdate env) (channel opts) (messageTs w4)
            (finalText (state w4)) 3) @ [ConsoleLog ResponseSent]"
    by blast
  from empty w4(1) have ft: "finalText (state w4) = fallbackText"
    by (simp add: finalText_def)
  from w4 ft have fw: "finalWrites (calls (snd (streamToSlack env opts))) =
     finalWrites (snd (retrySlackUpdate (finalUpdate env) (channel opts) (messageTs w4)
        fallbackText 3))"
    by simp
  from retry_lemmas(2) [of "finalUpdate env" "channel opts" "messageTs w4" fallbackText 3]
    retry_lemmas(3) [of 3 "finalUpdate env" "channel opts" "messageTs w4" fallbackText] fw
  have "finalWrites (calls (snd (streamToSlack env opts))) \<noteq> []"
    and "set (finalWrites (calls (snd (streamToSlack env opts)))) \<subseteq> {fallbackText}"
    by simp_all
  then have "finalWrites (calls (snd (streamToSlack env opts))) \<noteq> []
     \<and> set (finalWrites (calls (snd (streamToSlack env opts)))) = {fallbackText}"
    by (cases "finalWrites (calls (snd (streamToSlack env opts)))") auto
  then show ?thesis
    by (simp add: fallbackText_def)
qed

theorem empty_text_final_write_witness:
  "fst (streamToSlack (sampleEnv [] None) sampleOptions) = Inr ()
   \<and> textS (state (snd (streamToSlack (sampleEnv [] None) sampleOptions))) = []
   \<and> set (finalWrites (calls (snd (streamToSlack (sampleEnv [] None) sampleOptions))))
       = {''Sorry, I couldn't generate a response.''}"
proof -
  let ?w3 = "suspend (sampleEnv [] None) sampleOptions (initialWorld\<lparr>calls := calls initialWorld @
          [PostMessage (channel sampleOptions) (threadTs sampleOptions)
             (getStatusText (state initialWorld) 0)],
          messageTs := Some ''1700000001.000200'', animationTimer := True\<rparr>)"
  have "consume (sampleEnv [] None) sampleOptions [] None ?w3
      = (Inr (), suspend (sampleEnv [] None) sampleOptions ?w3)"
    by simp
  from sample_session [OF this]
  have ok: "fst (streamToSlack (sampleEnv [] None) sampleOptions) = Inr ()"
    and empty: "textS (state (snd (streamToSlack (sampleEnv [] None) sampleOptions))) = []"
    by (simp_all add: initialWorld_def)
  from empty_text_final_write [OF ok empty] ok empty show ?thesis
    by simp
qed

lemma processChunk_stepStart:
  assumes "isStepStart c"
  shows "fst (processChunk env opts c w) = Inr ()
     \<and> stepName (state (snd (processChunk env opts c w))) =
         Some (formatName (if truthy (outputId c) then the (outputId c)
                           else if truthy (outputStepId c) then the (outputStepId c)
                           else ''step''))
     \<and> chunkType (state (snd (processChunk env opts c w))) = ''workflow-step-start''"
  using assms
  by (auto simp add: processChunk_def isStepStart_def outputId_def outputStepId_def or_js_def
      Let_def split: option.splits ToolOutput.splits)

lemma terminalChunk_stepStart:
  assumes "isStepStart c"
  shows "fst (terminalChunk c t) = Inr ()
     \<and> stepName (t_state (snd (terminalChunk c t))) =
         Some (formatName (if truthy (outputId c) then the (outputId c)
                           else if truthy (outputStepId c) then the (outputStepId c)
                           else ''step''))"
  using assms
  by (auto simp add: terminalChunk_def isStepStart_def outputId_def outputStepId_def or_js_def
      Let_def split: option.splits ToolOutput.splits)

lemma formatName_step: "formatName ''step'' = ''Step''"
  by code_simp

lemma formatName_fetch: "formatName ''fetch-data'' = ''Fetch Data''"
  by code_simp

lemma stepStart_is: "isStepStart (stepStart a b)"
  by (simp add: isStepStart_def stepStart_def emptyPayload_def)

lemma stepStart_ids: "outputId (stepStart a b) = a" "outputStepId (stepStart a b) = b"
  by (simp_all add: outputId_def outputStepId_def stepStart_def emptyPayload_def)

text \<open>
  C4 as stated fails. With neither \<open>id\<close> nor \<open>stepId\<close> the step name becomes \<open>Step\<close>, not the
  literal word \<open>step\<close>; with an \<open>id\<close> that is present and empty and the \<open>stepId\<close>
  \<open>fetch-data\<close>, the step name is \<open>Fetch Data\<close>, taken from \<open>stepId\<close>.
\<close>

theorem step_name_counterexample:
  "stepName (state (snd (processChunk (sampleEnv [] None) sampleOptions (stepStart None None)
      initialWorld))) = Some ''Step''
   \<and> Some ''Step'' \<noteq> Some ''step''
   \<and> stepName (state (snd (processChunk (sampleEnv [] None) sampleOptions
      (stepStart (Some '''') (Some ''fetch-data'')) initialWorld))) = Some ''Fetch Data''"
  using processChunk_stepStart [OF stepStart_is, of "sampleEnv [] None" sampleOptions None None
      initialWorld]
    processChunk_stepStart [OF stepStart_is, of "sampleEnv [] None" sampleOptions "Some ''''"
      "Some ''fetch-data''" initialWorld]
  by (simp add: stepStart_ids formatName_step formatName_fetch)

text \<open>
  C4, amended. For a tool-output chunk whose \<open>output\<close> is an object of type
  \<open>workflow-step-start\<close>, each consumer sets the step name to \<open>formatName\<close> of
  \<open>output.payload.id\<close> if that is a non-empty string, else of \<open>output.payload.stepId\<close> if
  that is a non-empty string, else of the literal \<open>step\<close>, which \<open>formatName\<close> turns into
  \<open>Step\<close>.
\<close>

theorem step_name_priority:
  "isStepStart c \<Longrightarrow>
     fst (processChunk env opts c w) = Inr ()
     \<and> stepName (state (snd (processChunk env opts c w))) =
         Some (formatName (if truthy (outputId c) then the (outputId c)
                           else if truthy (outputStepId c) then the (outputStepId c)
                           else ''step''))
     \<and> fst (terminalChunk c t) = Inr ()
     \<and> stepName (t_state (snd (terminalChunk c t))) =
         Some (formatName (if truthy (outputId c) then the (outputId c)
                           else if truthy (outputStepId c) then the (outputStepId c)
                           else ''step''))
     \<and> formatName ''step'' = ''Step''"
  using processChunk_stepStart [of c env opts w] terminalChunk_stepStart [of c t]
  by (simp add: formatName_step)

theorem step_name_priority_witness:
  "isStepStart (stepStart (Some ''analyzeText'') (Some ''fetch-data''))
   \<and> stepName (state (snd (processChunk (sampleEnv [] None) sampleOptions
        (stepStart (Some ''analyzeText'') (Some ''fetch-data'')) initialWorld)))
       = Some ''Analyze Text''
   \<and> isStepStart (stepStart None (Some ''fetch-data''))
   \<and> stepName (state (snd (processChunk (sampleEnv [] None) sampleOptions
        (stepStart None (Some ''fetch-data'')) initialWorld))) = Some ''Fetch Data''"
proof -
  have f: "formatName ''analyzeText'' = ''Analyze Text''"
    by code_simp
  from step_name_priority [OF stepStart_is, of "sampleEnv [] None" sampleOptions
      "Some ''analyzeText''" "Some ''fetch-data''" initialWorld initialTerminal]
    step_name_priority [OF stepStart_is, of "sampleEnv [] None" sampleOptions
      None "Some ''fetch-data''" initialWorld initialTerminal]
  show ?thesis
    by (simp add: stepStart_ids stepStart_is f formatName_fetch)
qed

end
